theory Spec2Isabelle
  imports Main "HOL-Library.Sublist"
begin

section \<open>Values of the host language\<close>

text \<open>
  The program is the a11y-feedback core as bundled in \<^verbatim>\<open>docs/a11y-feedback.umd.js\<close>
  (minified; each definition below gives the bundle's symbol), with the constants of
  \<^verbatim>\<open>packages/core/src/constants.ts\<close>.

  A JavaScript string is a list of UTF-16 code units, so that the zero-width characters
  U+200B, U+200C, U+200D and U+FEFF are ordinary elements. \<open>str\<close> embeds an ASCII literal.
  A JavaScript number that the code uses as a duration is an integer number of
  milliseconds or one of the non-finite values.
\<close>

type_synonym jsstring = "nat list"

definition str :: "string \<Rightarrow> jsstring" where
  "str cs = map of_char cs"

datatype jsnumber = Finite int | Infinity | NegInfinity | NaN

section \<open>Data model\<close>

datatype FeedbackType = Success | Info | Loading | Warning | Error

datatype AriaRole = Status | Alert

datatype AriaLive = Polite | Assertive

datatype FeedbackPriority = Low | High

record FeedbackSemantics =
  role :: AriaRole
  ariaLive :: AriaLive
  priority :: FeedbackPriority
  canMoveFocus :: bool
  autoDismiss :: bool

record FeedbackOptions =
  opt_id :: "jsstring option"
  opt_focus :: "jsstring option"
  opt_explainFocus :: "bool option"
  opt_force :: "bool option"
  opt_timeout :: "jsnumber option"
  opt_className :: "jsstring option"

record FeedbackEvent =
  ev_id :: jsstring
  ev_message :: jsstring
  ev_type :: FeedbackType
  ev_role :: AriaRole
  ev_ariaLive :: AriaLive
  ev_priority :: FeedbackPriority
  ev_options :: FeedbackOptions
  ev_timestamp :: int
  ev_replaced :: bool
  ev_deduped :: bool

record FeedbackConfig =
  visual :: bool
  defaultTimeout :: jsnumber
  maxVisualItems :: int
  debug :: bool
  regionPrefix :: jsstring

text \<open>The result of the focus mediator (\<^verbatim>\<open>qe\<close>, \<^verbatim>\<open>Xe\<close>).\<close>

record FocusResult =
  moved :: bool
  target :: "jsstring option"
  elementName :: "jsstring option"
  blockedReason :: "jsstring option"

text \<open>The result of the deduplication engine (\<^verbatim>\<open>Ve\<close>).\<close>

datatype DedupeReason = IdReplacement | ContentDedupe | NoReason

record DedupeResult =
  shouldSkip :: bool
  replacedEvent :: "FeedbackEvent option"
  reason :: DedupeReason

section \<open>Constants (\<^verbatim>\<open>constants.ts\<close>)\<close>

text \<open>\<^verbatim>\<open>FEEDBACK_SEMANTICS\<close> (\<^verbatim>\<open>y\<close> in the bundle).\<close>

fun FEEDBACK_SEMANTICS :: "FeedbackType \<Rightarrow> FeedbackSemantics" where
  "FEEDBACK_SEMANTICS Success =
     \<lparr>role = Status, ariaLive = Polite, priority = Low, canMoveFocus = False, autoDismiss = True\<rparr>"
| "FEEDBACK_SEMANTICS Info =
     \<lparr>role = Status, ariaLive = Polite, priority = Low, canMoveFocus = False, autoDismiss = True\<rparr>"
| "FEEDBACK_SEMANTICS Loading =
     \<lparr>role = Status, ariaLive = Polite, priority = Low, canMoveFocus = False, autoDismiss = False\<rparr>"
| "FEEDBACK_SEMANTICS Warning =
     \<lparr>role = Alert, ariaLive = Assertive, priority = High, canMoveFocus = True, autoDismiss = True\<rparr>"
| "FEEDBACK_SEMANTICS Error =
     \<lparr>role = Alert, ariaLive = Assertive, priority = High, canMoveFocus = True, autoDismiss = False\<rparr>"

text \<open>\<^verbatim>\<open>DEFAULT_CONFIG\<close> (\<^verbatim>\<open>K\<close>); the container and position of the toasts are not modelled.\<close>

definition DEFAULT_CONFIG :: FeedbackConfig where
  "DEFAULT_CONFIG =
     \<lparr>visual = False, defaultTimeout = Finite 5000, maxVisualItems = 5, debug = False,
      regionPrefix = str ''a11y-feedback''\<rparr>"

text \<open>
  \<^verbatim>\<open>DEFAULT_TIMEOUTS\<close> (\<^verbatim>\<open>Z\<close>). The lookup \<^verbatim>\<open>Z[e.type]\<close> is written as an option so that
  the chain \<^verbatim>\<open>e.options.timeout ?? Z[e.type] ?? n.defaultTimeout\<close> keeps its shape; every
  type has an entry.
\<close>

fun DEFAULT_TIMEOUTS :: "FeedbackType \<Rightarrow> jsnumber option" where
  "DEFAULT_TIMEOUTS Success = Some (Finite 5000)"
| "DEFAULT_TIMEOUTS Info = Some (Finite 5000)"
| "DEFAULT_TIMEOUTS Loading = Some (Finite 0)"
| "DEFAULT_TIMEOUTS Warning = Some (Finite 8000)"
| "DEFAULT_TIMEOUTS Error = Some (Finite 0)"

text \<open>\<^verbatim>\<open>ANNOUNCEMENT_DEBOUNCE_MS\<close> (\<^verbatim>\<open>P\<close>) and \<^verbatim>\<open>REGION_CLEAR_DELAY_MS\<close> (\<^verbatim>\<open>ye\<close>).\<close>

definition ANNOUNCEMENT_DEBOUNCE_MS :: int where
  "ANNOUNCEMENT_DEBOUNCE_MS = 100"

definition REGION_CLEAR_DELAY_MS :: int where
  "REGION_CLEAR_DELAY_MS = 50"

text \<open>\<^verbatim>\<open>ZERO_WIDTH_CHARS\<close> (\<^verbatim>\<open>V\<close>): U+200B, U+200C, U+200D, U+FEFF.\<close>

definition ZERO_WIDTH_CHARS :: "nat list" where
  "ZERO_WIDTH_CHARS = [0x200B, 0x200C, 0x200D, 0xFEFF]"

text \<open>The dedupe window (\<^verbatim>\<open>oe\<close>) and the cap of the telemetry log (\<^verbatim>\<open>ot\<close>).\<close>

definition DEDUPE_WINDOW_MS :: int where
  "DEDUPE_WINDOW_MS = 500"

definition MAX_LOG_ENTRIES :: nat where
  "MAX_LOG_ENTRIES = 100"

text \<open>The strings of the enumerations, as the bundle writes them.\<close>

fun type_name :: "FeedbackType \<Rightarrow> jsstring" where
  "type_name Success = str ''success''"
| "type_name Info = str ''info''"
| "type_name Loading = str ''loading''"
| "type_name Warning = str ''warning''"
| "type_name Error = str ''error''"

fun live_name :: "AriaLive \<Rightarrow> jsstring" where
  "live_name Polite = str ''polite''"
| "live_name Assertive = str ''assertive''"

fun role_name :: "AriaRole \<Rightarrow> jsstring" where
  "role_name Status = str ''status''"
| "role_name Alert = str ''alert''"

section \<open>Pure helpers\<close>

text \<open>
  \<^verbatim>\<open>Se\<close> (getZeroWidthChar): \<^verbatim>\<open>const t = e % V.length; return V[t] ?? V[0] ?? ""\<close>.
  The result is a string of one code unit, or the empty string where both lookups miss.
\<close>

definition Se :: "nat \<Rightarrow> jsstring" where
  "Se e =
     (let t = e mod length ZERO_WIDTH_CHARS in
      if t < length ZERO_WIDTH_CHARS then [ZERO_WIDTH_CHARS ! t]
      else if 0 < length ZERO_WIDTH_CHARS then [ZERO_WIDTH_CHARS ! 0]
      else [])"

text \<open>\<^verbatim>\<open>Me\<close> (isNoTimeout): \<^verbatim>\<open>e === 0 || e === Infinity || !Number.isFinite(e)\<close>.\<close>

fun Me :: "jsnumber \<Rightarrow> bool" where
  "Me (Finite n) = (n = 0)"
| "Me Infinity = True"
| "Me NegInfinity = True"
| "Me NaN = True"

text \<open>\<^verbatim>\<open>ie\<close> (the dedupe key): the template \<^verbatim>\<open>`${t}:${e}`\<close> of type and message.\<close>

definition ie :: "jsstring \<Rightarrow> FeedbackType \<Rightarrow> jsstring" where
  "ie e t = type_name t @ str '':'' @ e"

text \<open>\<^verbatim>\<open>je\<close> (canMoveFocus): \<^verbatim>\<open>y[e].canMoveFocus\<close>.\<close>

definition je :: "FeedbackType \<Rightarrow> bool" where
  "je e = canMoveFocus (FEEDBACK_SEMANTICS e)"

text \<open>
  \<^verbatim>\<open>kt\<close> (createFeedbackEvent). \<^verbatim>\<open>Ce()\<close> builds an id from the clock and
  \<^verbatim>\<open>Math.random\<close>; the model takes the generated id as the argument \<open>gen\<close>, and the
  clock reading \<^verbatim>\<open>Date.now()\<close> as \<open>t_now\<close>.
\<close>

definition kt :: "jsstring \<Rightarrow> FeedbackType \<Rightarrow> FeedbackOptions \<Rightarrow> jsstring \<Rightarrow> int \<Rightarrow> FeedbackEvent" where
  "kt e t n gen t_now =
     (let sem = FEEDBACK_SEMANTICS t in
      \<lparr>ev_id = (case opt_id n of Some i \<Rightarrow> i | None \<Rightarrow> gen),
       ev_message = e, ev_type = t, ev_role = role sem, ev_ariaLive = ariaLive sem,
       ev_priority = priority sem, ev_options = n, ev_timestamp = t_now,
       ev_replaced = False, ev_deduped = False\<rparr>)"

section \<open>The state of the module and of its host\<close>

text \<open>
  The bundle keeps its state in module-level variables and runs on the event loop of
  the host: a call runs to its first \<^verbatim>\<open>await\<close>, and what follows the \<^verbatim>\<open>await\<close> runs
  when the timer it waits for fires. The model is a state record that is passed along,
  with the pending timers as a list of their suspended continuations. All microtasks
  that a task queues run before the next task starts, and the only tasks that resume
  the bundle's own code are its timers, so each firing of a timer is one step.
\<close>

text \<open>A live region element: the attributes that \<^verbatim>\<open>ne\<close> sets, and its text.\<close>

record live_region =
  reg_id :: jsstring
  reg_data :: jsstring
  reg_ariaLive :: jsstring
  reg_ariaAtomic :: jsstring
  reg_role :: jsstring
  textContent :: jsstring

text \<open>
  An element of the host page as the focus mediator sees it: whether \<^verbatim>\<open>Ae\<close>
  (isFocusable) holds of it, the label \<^verbatim>\<open>$e\<close> computes for it, and what its
  \<^verbatim>\<open>focus()\<close> method does.
\<close>

datatype focus_outcome = FocusMoves | FocusStays | FocusThrows

record element =
  el_node :: nat
  el_focusable :: bool
  el_name :: jsstring
  el_focus :: focus_outcome

text \<open>A visual item (the toast element built by \<^verbatim>\<open>Qe\<close>), reduced to its data.\<close>

record visual_item =
  v_type :: FeedbackType
  v_message :: jsstring
  v_exiting :: bool

datatype FeedbackAction = ActAnnounced | ActReplaced | ActDeduped

record FeedbackLogEntry =
  log_event :: FeedbackEvent
  log_action :: FeedbackAction
  log_region :: "AriaLive option"
  log_focusMoved :: bool
  log_focusTarget :: "jsstring option"
  log_focusBlocked :: "jsstring option"
  log_visualShown :: bool

text \<open>
  The event bus. A key of the listener map \<^verbatim>\<open>u\<close> is an event name or \<^verbatim>\<open>"*"\<close>. A
  listener is a callback of the host; of what it does the model keeps whether it
  throws, and whether it is the self-removing wrapper that \<^verbatim>\<open>yt\<close> (onceFeedback)
  registers. A listener does not call back into the bundle.
\<close>

datatype event_key = EvAnnounced | EvReplaced | EvDeduped | EvFocusMoved | EvVisualShown | EvAny

record listener =
  l_id :: nat
  l_throws :: bool
  l_once :: bool

record listener_set =
  set_gen :: nat
  members :: "listener list"

datatype payload =
    AnnouncedP FeedbackEvent AriaLive
  | ReplacedP FeedbackEvent FeedbackEvent
  | DedupedP FeedbackEvent
  | FocusMovedP FeedbackEvent jsstring "jsstring option"
  | VisualShownP FeedbackEvent

text \<open>
  What is suspended at \<^verbatim>\<open>await Ie(s)\<close> in \<^verbatim>\<open>ht\<close>: the event as announced (\<^verbatim>\<open>s\<close>, its
  message with the focus suffix), the event \<^verbatim>\<open>o\<close>, the replaced event of the dedupe
  result, and the focus result \<^verbatim>\<open>r\<close>.
\<close>

record pending =
  p_announced :: FeedbackEvent
  p_event :: FeedbackEvent
  p_replaced :: "FeedbackEvent option"
  p_focus :: FocusResult

text \<open>
  The callbacks that the bundle passes to \<^verbatim>\<open>setTimeout\<close>: the debounce timer of \<^verbatim>\<open>Re\<close>,
  the delay \<^verbatim>\<open>Fe(ye)\<close> inside \<^verbatim>\<open>X\<close>, the auto-dismiss timer of \<^verbatim>\<open>me\<close> and the removal
  timer of \<^verbatim>\<open>$\<close>.
\<close>

datatype timer_action =
    TDebounce AriaLive jsstring pending
  | TClearDelay AriaLive jsstring pending
  | TAutoDismiss jsstring
  | TRemoveVisual jsstring

text \<open>
  What an execution does that an observer outside can see: writes to the text of a
  live region, entries handed to the telemetry log, calls of \<^verbatim>\<open>x\<close> (emit), calls of
  listeners, errors printed by the event bus, focus calls, and the settling of the
  promise a notify call returned.
\<close>

datatype obs =
    DomClear AriaLive
  | DomWrite AriaLive jsstring
  | Logged FeedbackAction FeedbackEvent
  | Emitted event_key payload
  | Delivered nat event_key payload
  | ConsoleError nat event_key
  | TabindexSet nat
  | FocusCall nat
  | Resolved FeedbackEvent
  | Rejected FeedbackEvent

text \<open>\<^verbatim>\<open>g\<close>, the state of the announcer.\<close>

record AnnouncerState =
  lastPoliteMessage :: "jsstring option"
  lastAssertiveMessage :: "jsstring option"
  lastPoliteTimestamp :: int
  lastAssertiveTimestamp :: int
  zwcCounter :: nat

text \<open>
  The host: whether \<^verbatim>\<open>document\<close> and \<^verbatim>\<open>window\<close> exist (\<^verbatim>\<open>v()\<close>), the reduced-motion
  preference (\<^verbatim>\<open>te()\<close>), the elements that \<^verbatim>\<open>document.getElementById\<close> finds when the
  regions are initialised, what \<^verbatim>\<open>Q\<close> (querySelector, null on a syntax error) finds,
  and the translated sentence \<^verbatim>\<open>re("focusMovedTo", {label})\<close>.
\<close>

record host =
  hasDOM :: bool
  reducedMotion :: bool
  getElementById :: "jsstring \<Rightarrow> live_region option"
  querySelector :: "jsstring \<Rightarrow> element option"
  focusMovedTo :: "jsstring \<Rightarrow> jsstring"

text \<open>
  The module variables, with the bundle's names in brackets: \<open>config\<close> [\<^verbatim>\<open>f\<close>],
  \<open>configListeners\<close> [the size of \<^verbatim>\<open>U\<close>, whose only members are the closures that
  \<^verbatim>\<open>le\<close> adds], \<open>politeRegion\<close> [\<^verbatim>\<open>C\<close>], \<open>assertiveRegion\<close> [\<^verbatim>\<open>M\<close>], \<open>initialized\<close> [\<^verbatim>\<open>I\<close>],
  \<open>announcer\<close> [\<^verbatim>\<open>g\<close>], \<open>politeTimeoutId\<close> [\<^verbatim>\<open>N\<close>], \<open>assertiveTimeoutId\<close> [\<^verbatim>\<open>R\<close>],
  \<open>recentMessages\<close> [\<^verbatim>\<open>z\<close>], \<open>activeEvents\<close> [\<^verbatim>\<open>A\<close>], \<open>container\<close> [\<^verbatim>\<open>p !== null\<close>],
  \<open>styleElement\<close> [\<^verbatim>\<open>h !== null\<close>], \<open>visualItems\<close> [\<^verbatim>\<open>k\<close>], \<open>dismissTimers\<close> [\<^verbatim>\<open>T\<close>],
  \<open>feedbackLog\<close> [\<^verbatim>\<open>b\<close>], \<open>listeners\<close> [\<^verbatim>\<open>u\<close>]. The rest is the host: the clock
  \<open>now\<close> (\<^verbatim>\<open>Date.now()\<close>), the timers that are set and have not fired, the focused
  element, and the observations so far.
\<close>

record state =
  now :: int
  env :: host
  activeElement :: "nat option"
  config :: FeedbackConfig
  configListeners :: nat
  politeRegion :: "live_region option"
  assertiveRegion :: "live_region option"
  initialized :: bool
  announcer :: AnnouncerState
  politeTimeoutId :: "nat option"
  assertiveTimeoutId :: "nat option"
  recentMessages :: "jsstring \<rightharpoonup> int"
  activeEvents :: "jsstring \<rightharpoonup> FeedbackEvent"
  container :: bool
  styleElement :: bool
  visualItems :: "(jsstring \<times> visual_item) list"
  dismissTimers :: "(jsstring \<times> nat) list"
  feedbackLog :: "FeedbackLogEntry list"
  listeners :: "event_key \<rightharpoonup> listener_set"
  nextSet :: nat
  timers :: "(nat \<times> int \<times> timer_action) list"
  nextTimer :: nat
  trace :: "obs list"

definition observe :: "obs list \<Rightarrow> state \<Rightarrow> state" where
  "observe xs s = s\<lparr>trace := trace s @ xs\<rparr>"

subsection \<open>Timers and insertion-ordered maps\<close>

text \<open>
  \<^verbatim>\<open>setTimeout\<close> converts its delay to a 32-bit signed integer and treats a negative
  delay as zero; it returns the id of the new timer.
\<close>

definition timer_delay :: "int \<Rightarrow> int" where
  "timer_delay d = (let w = (d + 2147483648) mod 4294967296 - 2147483648 in max 0 w)"

definition setTimeout :: "timer_action \<Rightarrow> int \<Rightarrow> state \<Rightarrow> nat \<times> state" where
  "setTimeout act d s =
     (nextTimer s,
      s\<lparr>timers := timers s @ [(nextTimer s, now s + timer_delay d, act)],
        nextTimer := Suc (nextTimer s)\<rparr>)"

definition clearTimeout :: "nat \<Rightarrow> state \<Rightarrow> state" where
  "clearTimeout i s = s\<lparr>timers := filter (\<lambda>t. fst t \<noteq> i) (timers s)\<rparr>"

text \<open>A JavaScript \<^verbatim>\<open>Map\<close> whose order of keys matters: \<^verbatim>\<open>set\<close> keeps the place of a key.\<close>

fun map_set :: "'k \<Rightarrow> 'v \<Rightarrow> ('k \<times> 'v) list \<Rightarrow> ('k \<times> 'v) list" where
  "map_set k v [] = [(k, v)]"
| "map_set k v ((k', v') # xs) = (if k = k' then (k, v) # xs else (k', v') # map_set k v xs)"

definition map_delete :: "'k \<Rightarrow> ('k \<times> 'v) list \<Rightarrow> ('k \<times> 'v) list" where
  "map_delete k xs = filter (\<lambda>kv. fst kv \<noteq> k) xs"

section \<open>Region manager\<close>

text \<open>\<^verbatim>\<open>ne\<close> (createRegion): the element \<^verbatim>\<open>E("div", {id, data-a11y-feedback, aria-live, aria-atomic, role})\<close>.\<close>

definition ne :: "AriaLive \<Rightarrow> jsstring \<Rightarrow> live_region" where
  "ne e t =
     \<lparr>reg_id = t, reg_data = live_name e, reg_ariaLive = live_name e,
      reg_ariaAtomic = str ''true'',
      reg_role = (if e = Assertive then str ''alert'' else str ''status''),
      textContent = []\<rparr>"

text \<open>
  \<^verbatim>\<open>q\<close> (initializeRegions): nothing without a document, nothing when already
  initialised; regions found by id are reused when both exist, else both are created.
\<close>

definition q_initializeRegions :: "state \<Rightarrow> state" where
  "q_initializeRegions s =
     (if \<not> hasDOM (env s) then s
      else if initialized s \<and> politeRegion s \<noteq> None \<and> assertiveRegion s \<noteq> None then s
      else
        let e = regionPrefix (config s);
            t = getElementById (env s) (e @ str ''-'' @ str ''polite'');
            n = getElementById (env s) (e @ str ''-'' @ str ''assertive'')
        in if t \<noteq> None \<and> n \<noteq> None
           then s\<lparr>politeRegion := t, assertiveRegion := n, initialized := True\<rparr>
           else s\<lparr>politeRegion := Some (ne Polite (e @ str ''-'' @ str ''polite'')),
                  assertiveRegion := Some (ne Assertive (e @ str ''-'' @ str ''assertive'')),
                  initialized := True\<rparr>)"

text \<open>\<^verbatim>\<open>xe\<close> (getRegion): \<^verbatim>\<open>I || q(), e === "assertive" ? M : C\<close>.\<close>

definition xe :: "AriaLive \<Rightarrow> state \<Rightarrow> live_region option \<times> state" where
  "xe e s =
     (let s1 = (if initialized s then s else q_initializeRegions s)
      in (if e = Assertive then assertiveRegion s1 else politeRegion s1, s1))"

text \<open>An assignment to \<^verbatim>\<open>textContent\<close> of the region of a channel.\<close>

definition assign_text :: "AriaLive \<Rightarrow> jsstring \<Rightarrow> state \<Rightarrow> state" where
  "assign_text e t s =
     (if e = Assertive
      then s\<lparr>assertiveRegion := map_option (\<lambda>r. r\<lparr>textContent := t\<rparr>) (assertiveRegion s)\<rparr>
      else s\<lparr>politeRegion := map_option (\<lambda>r. r\<lparr>textContent := t\<rparr>) (politeRegion s)\<rparr>)"

text \<open>
  \<^verbatim>\<open>De\<close> (announceToRegion): \<^verbatim>\<open>n !== null && (n.textContent = "", await Ee(), n.textContent = t)\<close>.
  The microtask of \<^verbatim>\<open>Ee\<close> runs in the same task, before any other task.
\<close>

definition De :: "AriaLive \<Rightarrow> jsstring \<Rightarrow> state \<Rightarrow> state" where
  "De e t s =
     (let (n, s1) = xe e s
      in if n = None then s1
         else observe [DomWrite e t] (assign_text e t
                (observe [DomClear e] (assign_text e [] s1))))"

section \<open>Announcement scheduler\<close>

text \<open>\<^verbatim>\<open>Ne\<close> (appendZeroWidthChar): \<^verbatim>\<open>const t = Se(g.zwcCounter); g.zwcCounter++; return `${e}${t}`\<close>.\<close>

definition Ne :: "jsstring \<Rightarrow> state \<Rightarrow> jsstring \<times> state" where
  "Ne e s =
     (let t = Se (zwcCounter (announcer s))
      in (e @ t, s\<lparr>announcer := (announcer s)\<lparr>zwcCounter := Suc (zwcCounter (announcer s))\<rparr>\<rparr>))"

text \<open>
  \<^verbatim>\<open>X\<close>: \<^verbatim>\<open>await Fe(ye); await De(t, e)\<close>. The call sets the timer of \<^verbatim>\<open>Fe\<close>; the rest
  runs when it fires. \<open>k\<close> is what the caller has suspended.
\<close>

definition X_write :: "jsstring \<Rightarrow> AriaLive \<Rightarrow> pending \<Rightarrow> state \<Rightarrow> state" where
  "X_write e t k s = snd (setTimeout (TClearDelay t e k) REGION_CLEAR_DELAY_MS s)"

text \<open>
  \<^verbatim>\<open>Re\<close> (the debounced write): per channel, clear the timer whose id is held (\<^verbatim>\<open>R\<close> or
  \<^verbatim>\<open>N\<close>) and set a new one of \<^verbatim>\<open>P\<close> milliseconds. The promise that the cleared timer
  would have resolved is never resolved.
\<close>

definition Re :: "jsstring \<Rightarrow> AriaLive \<Rightarrow> pending \<Rightarrow> state \<Rightarrow> state" where
  "Re t n k s =
     (if n = Assertive
      then
        let s1 = (case assertiveTimeoutId s of Some r \<Rightarrow> clearTimeout r s | None \<Rightarrow> s);
            (i, s2) = setTimeout (TDebounce Assertive t k) ANNOUNCEMENT_DEBOUNCE_MS s1
        in s2\<lparr>assertiveTimeoutId := Some i\<rparr>
      else
        let s1 = (case politeTimeoutId s of Some r \<Rightarrow> clearTimeout r s | None \<Rightarrow> s);
            (i, s2) = setTimeout (TDebounce Polite t k) ANNOUNCEMENT_DEBOUNCE_MS s1
        in s2\<lparr>politeTimeoutId := Some i\<rparr>)"

text \<open>
  \<^verbatim>\<open>Ie\<close> (announce), up to its \<^verbatim>\<open>await\<close>: the text is perturbed when forced or equal
  to the last message of the channel; the write is debounced when the last timestamp
  of the channel is less than \<^verbatim>\<open>P\<close> old.
\<close>

definition Ie :: "pending \<Rightarrow> state \<Rightarrow> state" where
  "Ie k s0 =
     (let s = q_initializeRegions s0;
          e = p_announced k;
          t = ev_message e;
          n = ev_ariaLive e;
          r = (if n = Assertive then lastAssertiveMessage (announcer s)
               else lastPoliteMessage (announcer s));
          c = (if n = Assertive then lastAssertiveTimestamp (announcer s)
               else lastPoliteTimestamp (announcer s));
          forced = (opt_force (ev_options e) = Some True \<or> Some t = r);
          (l, s1) = (if forced then Ne t s else (t, s))
      in if now s1 - c < ANNOUNCEMENT_DEBOUNCE_MS then Re l n k s1 else X_write l n k s1)"

text \<open>\<^verbatim>\<open>Ie\<close> after its \<^verbatim>\<open>await\<close>: the last message and timestamp of the channel.\<close>

definition Ie_resume :: "pending \<Rightarrow> state \<Rightarrow> state" where
  "Ie_resume k s =
     (let e = p_announced k in
      if ev_ariaLive e = Assertive
      then s\<lparr>announcer := (announcer s)\<lparr>lastAssertiveMessage := Some (ev_message e),
                                         lastAssertiveTimestamp := now s\<rparr>\<rparr>
      else s\<lparr>announcer := (announcer s)\<lparr>lastPoliteMessage := Some (ev_message e),
                                         lastPoliteTimestamp := now s\<rparr>\<rparr>)"

section \<open>Deduplication and replacement engine\<close>

text \<open>\<^verbatim>\<open>Be\<close> (isDuplicate).\<close>

definition Be :: "jsstring \<Rightarrow> FeedbackType \<Rightarrow> state \<Rightarrow> bool" where
  "Be e t s =
     (case recentMessages s (ie e t) of
        None \<Rightarrow> False
      | Some ts \<Rightarrow> now s - ts < DEDUPE_WINDOW_MS)"

text \<open>\<^verbatim>\<open>Ue\<close> (the purge of stale records) and \<^verbatim>\<open>Oe\<close> (recordMessage).\<close>

definition Ue :: "state \<Rightarrow> state" where
  "Ue s =
     (let t = now s - DEDUPE_WINDOW_MS * 2
      in s\<lparr>recentMessages :=
             (\<lambda>n. case recentMessages s n of
                     None \<Rightarrow> None
                   | Some ts \<Rightarrow> if ts < t then None else Some ts)\<rparr>)"

definition Oe :: "jsstring \<Rightarrow> FeedbackType \<Rightarrow> state \<Rightarrow> state" where
  "Oe e t s = Ue (s\<lparr>recentMessages := (recentMessages s)(ie e t \<mapsto> now s)\<rparr>)"

text \<open>\<^verbatim>\<open>Pe\<close> (registerEvent) and \<^verbatim>\<open>ae\<close> (unregisterEvent).\<close>

definition Pe :: "FeedbackEvent \<Rightarrow> state \<Rightarrow> state" where
  "Pe e s = s\<lparr>activeEvents := (activeEvents s)(ev_id e \<mapsto> e)\<rparr>"

definition ae :: "jsstring \<Rightarrow> state \<Rightarrow> state" where
  "ae e s = s\<lparr>activeEvents := (activeEvents s)(e := None)\<rparr>"

text \<open>
  \<^verbatim>\<open>Ve\<close> (the decision). The id branch is entered for an id that is neither undefined
  nor the empty string; the content check follows when that branch does not return.
\<close>

definition content_check :: "FeedbackEvent \<Rightarrow> state \<Rightarrow> DedupeResult \<times> state" where
  "content_check e s =
     (if opt_force (ev_options e) \<noteq> Some True \<and> Be (ev_message e) (ev_type e) s
      then (\<lparr>shouldSkip = True, replacedEvent = None, reason = ContentDedupe\<rparr>, s)
      else (\<lparr>shouldSkip = False, replacedEvent = None, reason = NoReason\<rparr>, s))"

definition Ve :: "FeedbackEvent \<Rightarrow> state \<Rightarrow> DedupeResult \<times> state" where
  "Ve e s =
     (case opt_id (ev_options e) of
        None \<Rightarrow> content_check e s
      | Some i \<Rightarrow>
          if i \<noteq> [] then
            (case activeEvents s i of
               Some t \<Rightarrow>
                 (\<lparr>shouldSkip = False, replacedEvent = Some t, reason = IdReplacement\<rparr>, ae i s)
             | None \<Rightarrow> content_check e s)
          else content_check e s)"

section \<open>Focus mediator\<close>

text \<open>\<^verbatim>\<open>Xe\<close> (moveFocus).\<close>

definition Xe :: "jsstring \<Rightarrow> state \<Rightarrow> FocusResult \<times> state" where
  "Xe e s =
     (if \<not> hasDOM (env s)
      then (\<lparr>moved = False, target = Some e, elementName = None,
             blockedReason = Some (str ''DOM not available'')\<rparr>, s)
      else
        case querySelector (env s) e of
          None \<Rightarrow>
            (\<lparr>moved = False, target = Some e, elementName = None,
              blockedReason = Some (str ''Element not found: '' @ e)\<rparr>, s)
        | Some t \<Rightarrow>
            let s1 = (if el_focusable t then s else observe [TabindexSet (el_node t)] s);
                n = el_name t;
                s2 = observe [FocusCall (el_node t)] s1
            in if el_focus t = FocusThrows
               then (\<lparr>moved = False, target = Some e, elementName = None,
                      blockedReason = Some (str ''Focus operation threw an error'')\<rparr>, s2)
               else
                 let s3 = (if el_focus t = FocusMoves
                           then s2\<lparr>activeElement := Some (el_node t)\<rparr> else s2);
                     ok = (activeElement s3 = Some (el_node t))
                 in (\<lparr>moved = ok, target = Some e,
                      elementName = (if n \<noteq> [] then Some n else None),
                      blockedReason = (if ok then None else Some (str ''Focus failed to move''))\<rparr>,
                     s3))"

text \<open>\<^verbatim>\<open>qe\<close> (handleFocus).\<close>

definition qe :: "FeedbackEvent \<Rightarrow> state \<Rightarrow> FocusResult \<times> state" where
  "qe e s =
     (let t = ev_type e; n = ev_options e in
      case opt_focus n of
        None \<Rightarrow> (\<lparr>moved = False, target = None, elementName = None, blockedReason = None\<rparr>, s)
      | Some sel \<Rightarrow>
          if sel = []
          then (\<lparr>moved = False, target = None, elementName = None, blockedReason = None\<rparr>, s)
          else if \<not> je t
          then (\<lparr>moved = False, target = Some sel, elementName = None,
                 blockedReason =
                   Some (str ''Focus movement blocked: '' @ type_name t
                         @ str '' type cannot move focus'')\<rparr>, s)
          else Xe sel s)"

text \<open>\<^verbatim>\<open>Ye\<close> (the focus sentence) and \<^verbatim>\<open>Ge\<close> (the announced text).\<close>

definition Ye :: "jsstring option \<Rightarrow> state \<Rightarrow> jsstring" where
  "Ye e s =
     (case e of
        None \<Rightarrow> str ''Focus moved.''
      | Some l \<Rightarrow> if l \<noteq> [] then focusMovedTo (env s) l else str ''Focus moved.'')"

definition Ge :: "jsstring \<Rightarrow> FeedbackEvent \<Rightarrow> FocusResult \<Rightarrow> state \<Rightarrow> jsstring" where
  "Ge e t n s =
     (if opt_explainFocus (ev_options t) \<noteq> Some True \<or> \<not> moved n then e
      else e @ str '' '' @ Ye (elementName n) s)"

section \<open>Event bus\<close>

definition set_size :: "event_key \<Rightarrow> state \<Rightarrow> nat" where
  "set_size e s = (case listeners s e of None \<Rightarrow> 0 | Some n \<Rightarrow> length (members n))"

text \<open>\<^verbatim>\<open>F\<close> (hasListeners).\<close>

definition F_hasListeners :: "event_key \<Rightarrow> state \<Rightarrow> bool" where
  "F_hasListeners e s = (0 < set_size e s \<or> 0 < set_size EvAny s)"

text \<open>
  \<^verbatim>\<open>pe\<close> (onFeedback) and \<^verbatim>\<open>gt\<close> (onAnyFeedback): the set of the key is created when
  missing, and \<^verbatim>\<open>Set.add\<close> adds a callback that is not yet a member. The function that
  \<^verbatim>\<open>pe\<close> returns deletes the callback from the set it was added to: \<open>unsubscribe\<close>.
\<close>

definition pe :: "event_key \<Rightarrow> listener \<Rightarrow> state \<Rightarrow> state" where
  "pe e t s =
     (let s1 = (if listeners s e = None
                then s\<lparr>listeners := (listeners s)(e \<mapsto> \<lparr>set_gen = nextSet s, members = []\<rparr>),
                       nextSet := Suc (nextSet s)\<rparr>
                else s)
      in case listeners s1 e of
           None \<Rightarrow> s1
         | Some n \<Rightarrow>
             if l_id t \<in> l_id ` set (members n) then s1
             else s1\<lparr>listeners := (listeners s1)(e \<mapsto> n\<lparr>members := members n @ [t]\<rparr>)\<rparr>)"

definition gt :: "listener \<Rightarrow> state \<Rightarrow> state" where
  "gt e s = pe EvAny e s"

definition unsubscribe :: "nat \<Rightarrow> nat \<Rightarrow> state \<Rightarrow> state" where
  "unsubscribe g i s =
     s\<lparr>listeners :=
         (\<lambda>k. case listeners s k of
                 None \<Rightarrow> None
               | Some n \<Rightarrow>
                   if set_gen n = g
                   then Some (n\<lparr>members := filter (\<lambda>l. l_id l \<noteq> i) (members n)\<rparr>)
                   else Some n)\<rparr>"

text \<open>\<^verbatim>\<open>pt\<close> (offFeedback): \<^verbatim>\<open>e === undefined ? u.clear() : u.delete(e)\<close>.\<close>

definition pt :: "event_key option \<Rightarrow> state \<Rightarrow> state" where
  "pt e s =
     (case e of
        None \<Rightarrow> s\<lparr>listeners := Map.empty\<rparr>
      | Some k \<Rightarrow> s\<lparr>listeners := (listeners s)(k := None)\<rparr>)"

text \<open>
  The call of one callback. The wrapper of \<^verbatim>\<open>yt\<close> first removes itself from its set.
  The call returns or throws; either way the state it leaves is given.
\<close>

datatype completion = Returned state | Thrown state

definition run_callback :: "event_key \<Rightarrow> event_key \<Rightarrow> payload \<Rightarrow> listener \<Rightarrow> state \<Rightarrow> completion" where
  "run_callback k e t r s =
     (let s1 = (if l_once r
                then (case listeners s k of
                        None \<Rightarrow> s
                      | Some n \<Rightarrow>
                          s\<lparr>listeners := (listeners s)(k \<mapsto>
                               n\<lparr>members := filter (\<lambda>l. l_id l \<noteq> l_id r) (members n)\<rparr>)\<rparr>)
                else s);
          s2 = observe [Delivered (l_id r) e t] s1
      in if l_throws r then Thrown s2 else Returned s2)"

text \<open>
  The body of \<^verbatim>\<open>forEach\<close> in \<^verbatim>\<open>x\<close>: \<^verbatim>\<open>try { r(t) } catch (c) { console.error(...) }\<close>.
\<close>

definition try_callback :: "event_key \<Rightarrow> event_key \<Rightarrow> payload \<Rightarrow> listener \<Rightarrow> state \<Rightarrow> state" where
  "try_callback k e t r s =
     (case run_callback k e t r s of
        Returned s' \<Rightarrow> s'
      | Thrown s' \<Rightarrow> observe [ConsoleError (l_id r) e] s')"

fun forEach_listener :: "event_key \<Rightarrow> event_key \<Rightarrow> payload \<Rightarrow> listener list \<Rightarrow> state \<Rightarrow> state" where
  "forEach_listener k e t [] s = s"
| "forEach_listener k e t (r # rs) s = forEach_listener k e t rs (try_callback k e t r s)"

text \<open>\<^verbatim>\<open>x\<close> (emit): the listeners of the event, then the wildcard listeners.\<close>

definition x_emit :: "event_key \<Rightarrow> payload \<Rightarrow> state \<Rightarrow> state" where
  "x_emit e t s0 =
     (let s = observe [Emitted e t] s0;
          s1 = (case listeners s e of
                  None \<Rightarrow> s
                | Some n \<Rightarrow> forEach_listener e e t (members n) s)
      in case listeners s1 EvAny of
           None \<Rightarrow> s1
         | Some w \<Rightarrow> forEach_listener EvAny e t (members w) s1)"

section \<open>Telemetry log\<close>

text \<open>The loop \<^verbatim>\<open>for (b.push(o); b.length > ot;) b.shift()\<close> of \<^verbatim>\<open>ge\<close>.\<close>

function shift_log :: "'a list \<Rightarrow> 'a list" where
  "shift_log b = (if MAX_LOG_ENTRIES < length b then shift_log (tl b) else b)"
  by pat_completeness auto
termination
  by (relation "measure length") auto

text \<open>\<^verbatim>\<open>ge\<close> (logFeedback); its third argument is the object of optional details.\<close>

definition ge :: "FeedbackEvent \<Rightarrow> FeedbackAction \<Rightarrow> AriaLive option \<Rightarrow> FocusResult option
    \<Rightarrow> bool option \<Rightarrow> state \<Rightarrow> state" where
  "ge e t region focusResult visualShown s =
     (let entry =
            \<lparr>log_event = e, log_action = t, log_region = region,
             log_focusMoved = (case focusResult of Some r \<Rightarrow> moved r | None \<Rightarrow> False),
             log_focusTarget = (case focusResult of Some r \<Rightarrow> target r | None \<Rightarrow> None),
             log_focusBlocked = (case focusResult of Some r \<Rightarrow> blockedReason r | None \<Rightarrow> None),
             log_visualShown = (case visualShown of Some v \<Rightarrow> v | None \<Rightarrow> False)\<rparr>
      in observe [Logged t e] (s\<lparr>feedbackLog := shift_log (feedbackLog s @ [entry])\<rparr>))"

section \<open>Visual layer\<close>

text \<open>\<^verbatim>\<open>de\<close> (the style element), \<^verbatim>\<open>ue\<close> (the container) and \<^verbatim>\<open>le\<close> (initializeVisual).\<close>

definition de :: "state \<Rightarrow> state" where
  "de s = (if \<not> hasDOM (env s) \<or> styleElement s then s else s\<lparr>styleElement := True\<rparr>)"

definition ue :: "state \<Rightarrow> state" where
  "ue s = (if \<not> hasDOM (env s) \<or> container s then s else s\<lparr>container := True\<rparr>)"

definition le :: "state \<Rightarrow> state" where
  "le s =
     (if \<not> hasDOM (env s) \<or> \<not> visual (config s) then s
      else (ue (de s))\<lparr>configListeners := Suc (configListeners (ue (de s)))\<rparr>)"

text \<open>
  \<^verbatim>\<open>me\<close> (scheduleAutoDismiss). A timer is set only for a finite delay other than zero.
\<close>

definition me :: "FeedbackEvent \<Rightarrow> state \<Rightarrow> state" where
  "me e s =
     (if \<not> autoDismiss (FEEDBACK_SEMANTICS (ev_type e)) then s
      else
        let n = config s;
            d = (case opt_timeout (ev_options e) of
                   Some v \<Rightarrow> v
                 | None \<Rightarrow> (case DEFAULT_TIMEOUTS (ev_type e) of
                              Some v \<Rightarrow> v
                            | None \<Rightarrow> defaultTimeout n))
        in if Me d then s
           else (case d of
                   Finite ms \<Rightarrow>
                     let (r, s1) = setTimeout (TAutoDismiss (ev_id e)) ms s
                     in s1\<lparr>dismissTimers := map_set (ev_id e) r (dismissTimers s1)\<rparr>
                 | _ \<Rightarrow> s))"

text \<open>
  \<^verbatim>\<open>$\<close> (dismissVisualFeedback): the item is marked as leaving at once; it leaves the
  map \<^verbatim>\<open>k\<close>, and its event leaves the active events, when the removal timer fires.
\<close>

definition dismiss :: "jsstring \<Rightarrow> state \<Rightarrow> state" where
  "dismiss e s =
     (case map_of (visualItems s) e of
        None \<Rightarrow> s
      | Some t \<Rightarrow>
          let s1 = (case map_of (dismissTimers s) e of
                      Some n \<Rightarrow> (clearTimeout n s)\<lparr>dismissTimers := map_delete e (dismissTimers s)\<rparr>
                    | None \<Rightarrow> s);
              s2 = s1\<lparr>visualItems := map_set e (t\<lparr>v_exiting := True\<rparr>) (visualItems s1)\<rparr>;
              d = (if reducedMotion (env s2) then 0 else 200)
          in snd (setTimeout (TRemoveVisual e) d s2))"

text \<open>
  The eviction loop of \<^verbatim>\<open>fe\<close>:
  \<^verbatim>\<open>for (; k.size >= t.maxVisualItems;) { const o = k.keys().next().value; o !== void 0 && typeof o == "string" && $(o) }\<close>.
  The value \<open>None\<close> is a loop that does not end.
\<close>

partial_function (option) evict_loop :: "state \<Rightarrow> state option" where
  "evict_loop s =
     (if maxVisualItems (config s) \<le> int (length (visualItems s))
      then evict_loop (case visualItems s of [] \<Rightarrow> s | kv # _ \<Rightarrow> dismiss (fst kv) s)
      else Some s)"

text \<open>\<^verbatim>\<open>fe\<close> (showVisualFeedback).\<close>

definition fe :: "FeedbackEvent \<Rightarrow> state \<Rightarrow> state option" where
  "fe e s =
     (if \<not> visual (config s) then Some s
      else
        let s1 = le s in
        if \<not> container s1 then Some s1
        else
          case evict_loop s1 of
            None \<Rightarrow> None
          | Some s2 \<Rightarrow>
              Some (me e (s2\<lparr>visualItems :=
                       map_set (ev_id e)
                         \<lparr>v_type = ev_type e, v_message = ev_message e, v_exiting = False\<rparr>
                         (visualItems s2)\<rparr>)))"

text \<open>\<^verbatim>\<open>et\<close> (updateVisualFeedback).\<close>

definition et :: "FeedbackEvent \<Rightarrow> state \<Rightarrow> state option" where
  "et e s =
     (case map_of (visualItems s) (ev_id e) of
        None \<Rightarrow> fe e s
      | Some t \<Rightarrow>
          let s1 = s\<lparr>visualItems :=
                      map_set (ev_id e) (t\<lparr>v_message := ev_message e, v_type := ev_type e\<rparr>)
                        (visualItems s)\<rparr>;
              s2 = (case map_of (dismissTimers s1) (ev_id e) of
                      Some r \<Rightarrow>
                        (clearTimeout r s1)\<lparr>dismissTimers := map_delete (ev_id e) (dismissTimers s1)\<rparr>
                    | None \<Rightarrow> s1)
          in Some (me e s2))"

text \<open>\<^verbatim>\<open>be\<close> (dismissAllVisualFeedback) and \<^verbatim>\<open>nt\<close> (destroyVisual).\<close>

definition be :: "state \<Rightarrow> state" where
  "be s = fold dismiss (map fst (visualItems s)) s"

definition nt :: "state \<Rightarrow> state" where
  "nt s =
     (let s1 = be s;
          s2 = s1\<lparr>container := False, styleElement := False\<rparr>;
          s3 = fold clearTimeout (map snd (dismissTimers s2)) s2
      in s3\<lparr>dismissTimers := []\<rparr>)"

section \<open>Configuration\<close>

text \<open>
  The listener that \<^verbatim>\<open>le\<close> registers with \<^verbatim>\<open>we\<close>: \<^verbatim>\<open>e => { e.visual ? (de(), ue()) : nt() }\<close>,
  and \<^verbatim>\<open>J\<close> (notifyListeners), which calls every member of \<^verbatim>\<open>U\<close>.
\<close>

definition config_listener :: "state \<Rightarrow> state" where
  "config_listener s = (if visual (config s) then ue (de s) else nt s)"

definition J_notifyListeners :: "state \<Rightarrow> state" where
  "J_notifyListeners s = (config_listener ^^ configListeners s) s"

text \<open>
  \<^verbatim>\<open>W\<close> (configureFeedback): the partial configuration is merged, and the listeners run
  when \<^verbatim>\<open>Te\<close> finds a key of the old configuration whose value differs.
  \<open>patch_otherChanged\<close> says that such a key is among those the model leaves out.
\<close>

record ConfigPatch =
  patch_visual :: "bool option"
  patch_defaultTimeout :: "jsnumber option"
  patch_maxVisualItems :: "int option"
  patch_debug :: "bool option"
  patch_regionPrefix :: "jsstring option"
  patch_otherChanged :: bool

definition merge_config :: "FeedbackConfig \<Rightarrow> ConfigPatch \<Rightarrow> FeedbackConfig" where
  "merge_config c e =
     \<lparr>visual = (case patch_visual e of Some v \<Rightarrow> v | None \<Rightarrow> visual c),
      defaultTimeout = (case patch_defaultTimeout e of Some v \<Rightarrow> v | None \<Rightarrow> defaultTimeout c),
      maxVisualItems = (case patch_maxVisualItems e of Some v \<Rightarrow> v | None \<Rightarrow> maxVisualItems c),
      debug = (case patch_debug e of Some v \<Rightarrow> v | None \<Rightarrow> debug c),
      regionPrefix = (case patch_regionPrefix e of Some v \<Rightarrow> v | None \<Rightarrow> regionPrefix c)\<rparr>"

definition W_configureFeedback :: "ConfigPatch \<Rightarrow> state \<Rightarrow> state" where
  "W_configureFeedback e s =
     (let t = config s;
          s1 = s\<lparr>config := merge_config t e\<rparr>
      in if t \<noteq> config s1 \<or> patch_otherChanged e then J_notifyListeners s1 else s1)"

text \<open>\<^verbatim>\<open>he\<close> (resetConfig).\<close>

definition he :: "state \<Rightarrow> state" where
  "he s = J_notifyListeners (s\<lparr>config := DEFAULT_CONFIG\<rparr>)"

section \<open>The notify pipeline\<close>

text \<open>
  \<^verbatim>\<open>ht\<close> (processFeedback) after \<^verbatim>\<open>await Ie(s)\<close>, in two parts. First the visual
  item: \<^verbatim>\<open>let l = !1; H() && (le(), n ? et(o) : fe(o), l = !0)\<close>.
\<close>

definition show_visual :: "pending \<Rightarrow> state \<Rightarrow> (bool \<times> state) option" where
  "show_visual k s =
     (if visual (config s)
      then (case (if p_replaced k \<noteq> None then et (p_event k) (le s) else fe (p_event k) (le s)) of
              None \<Rightarrow> None
            | Some s' \<Rightarrow> Some (True, s'))
      else Some (False, s))"

text \<open>
  Then the log entry, the events, and the value of the promise, statement by
  statement. The promise is rejected where \<^verbatim>\<open>document.querySelector\<close> is reached
  without a document.
\<close>

definition emit_announced :: "pending \<Rightarrow> state \<Rightarrow> state" where
  "emit_announced k s =
     (if F_hasListeners EvAnnounced s \<or> F_hasListeners EvReplaced s
      then (case p_replaced k of
              Some prev \<Rightarrow> x_emit EvReplaced (ReplacedP (p_event k) prev) s
            | None \<Rightarrow> x_emit EvAnnounced (AnnouncedP (p_event k) (ev_ariaLive (p_event k))) s)
      else s)"

definition emit_focusMoved :: "pending \<Rightarrow> state \<Rightarrow> state" where
  "emit_focusMoved k s =
     (if moved (p_focus k) \<and> F_hasListeners EvFocusMoved s
      then x_emit EvFocusMoved
             (FocusMovedP (p_event k) (case target (p_focus k) of Some t \<Rightarrow> t | None \<Rightarrow> [])
                (elementName (p_focus k))) s
      else s)"

definition emit_visualShown :: "pending \<Rightarrow> bool \<Rightarrow> state \<Rightarrow> state" where
  "emit_visualShown k l s =
     (if l \<and> F_hasListeners EvVisualShown s
      then (if \<not> hasDOM (env s) then observe [Rejected (p_event k)] s
            else observe [Resolved (p_event k)]
                   (if container s then x_emit EvVisualShown (VisualShownP (p_event k)) s else s))
      else observe [Resolved (p_event k)] s)"

definition publish :: "pending \<Rightarrow> bool \<Rightarrow> state \<Rightarrow> state" where
  "publish k l s1 =
     emit_visualShown k l
       (emit_focusMoved k
          (emit_announced k
             (ge (p_event k) (if p_replaced k \<noteq> None then ActReplaced else ActAnnounced)
                (Some (ev_ariaLive (p_event k))) (Some (p_focus k)) (Some l) s1)))"

definition ht_resume :: "pending \<Rightarrow> state \<Rightarrow> state option" where
  "ht_resume k s =
     (case show_visual k s of
        None \<Rightarrow> None
      | Some (l, s1) \<Rightarrow> Some (publish k l s1))"

text \<open>
  \<^verbatim>\<open>ht\<close> (processFeedback) up to \<^verbatim>\<open>await Ie(s)\<close>, branch by branch. A skipped call
  is logged, published as \<^verbatim>\<open>deduped\<close> and returned at once.
\<close>

definition ht_skipped :: "FeedbackEvent \<Rightarrow> state \<Rightarrow> state" where
  "ht_skipped e s1 =
     (let d = e\<lparr>ev_deduped := True\<rparr>;
          s2 = ge d ActDeduped None None None s1;
          s3 = (if F_hasListeners EvDeduped s2 then x_emit EvDeduped (DedupedP d) s2 else s2)
      in observe [Resolved d] s3)"

text \<open>
  Any other call registers the event, records its dedupe key, mediates focus and
  leaves the rest to the timer that \<^verbatim>\<open>Ie\<close> sets.
\<close>

definition ht_announce :: "FeedbackEvent \<Rightarrow> DedupeResult \<Rightarrow> state \<Rightarrow> state" where
  "ht_announce e t s1 =
     (let n = (replacedEvent t \<noteq> None);
          ev = e\<lparr>ev_replaced := n\<rparr>;
          s2 = Pe ev s1;
          s3 = Oe (ev_message ev) (ev_type ev) s2;
          (r, s4) = qe ev s3;
          c = Ge (ev_message ev) ev r s4;
          sv = ev\<lparr>ev_message := c\<rparr>
      in Ie \<lparr>p_announced = sv, p_event = ev, p_replaced = replacedEvent t, p_focus = r\<rparr> s4)"

definition ht :: "FeedbackEvent \<Rightarrow> state \<Rightarrow> state" where
  "ht e s0 =
     (let s = q_initializeRegions s0;
          (t, s1) = Ve e s
      in if shouldSkip t then ht_skipped e s1 else ht_announce e t s1)"

text \<open>\<^verbatim>\<open>S\<close> (notify): \<^verbatim>\<open>const t = kt(e.message, e.type, e.options); return ht(t)\<close>.\<close>

definition S_notify :: "jsstring \<Rightarrow> FeedbackType \<Rightarrow> FeedbackOptions \<Rightarrow> jsstring \<Rightarrow> state \<Rightarrow> state" where
  "S_notify msg ty opts gen s = ht (kt msg ty opts gen (now s)) s"

section \<open>The event loop\<close>

text \<open>The timer that fires next: the least due time, the older timer on a tie.\<close>

fun earliest :: "(nat \<times> int \<times> timer_action) list \<Rightarrow> (nat \<times> int \<times> timer_action) option" where
  "earliest [] = None"
| "earliest (t # ts) =
     (case earliest ts of
        None \<Rightarrow> Some t
      | Some u \<Rightarrow> if fst (snd u) < fst (snd t) then Some u else Some t)"

text \<open>
  The callbacks of the timers. The debounce timer runs \<^verbatim>\<open>X(t, "assertive").then(o), R = null\<close>
  (or the same for the polite channel); the timer of \<^verbatim>\<open>Fe\<close> resumes \<^verbatim>\<open>X\<close>, which writes,
  then \<^verbatim>\<open>Ie\<close>, then \<^verbatim>\<open>ht\<close>; the auto-dismiss timer calls \<^verbatim>\<open>$\<close>; the removal timer runs
  \<^verbatim>\<open>j(t), k.delete(e), ae(e)\<close>.
\<close>

definition run_timer :: "timer_action \<Rightarrow> state \<Rightarrow> state option" where
  "run_timer a s =
     (case a of
        TDebounce n t k \<Rightarrow>
          Some (if n = Assertive then (X_write t Assertive k s)\<lparr>assertiveTimeoutId := None\<rparr>
                else (X_write t Polite k s)\<lparr>politeTimeoutId := None\<rparr>)
      | TClearDelay e t k \<Rightarrow> ht_resume k (Ie_resume k (De e t s))
      | TAutoDismiss i \<Rightarrow> Some (dismiss i s)
      | TRemoveVisual i \<Rightarrow> Some (ae i (s\<lparr>visualItems := map_delete i (visualItems s)\<rparr>)))"

definition fire :: "state \<Rightarrow> state option" where
  "fire s =
     (case earliest (timers s) of
        None \<Rightarrow> Some s
      | Some t \<Rightarrow>
          run_timer (snd (snd t))
            (s\<lparr>timers := filter (\<lambda>u. fst u \<noteq> fst t) (timers s),
               now := max (now s) (fst (snd t))\<rparr>))"

text \<open>
  What can happen next: time passes, the next timer fires, or the host calls a function
  that the bundle exports.
\<close>

datatype action =
    Advance int
  | Fire
  | Notify jsstring FeedbackType FeedbackOptions jsstring
  | Configure ConfigPatch
  | ResetConfig
  | DismissVisual jsstring
  | DismissAll
  | OnFeedback event_key listener
  | OnAnyFeedback listener
  | OffFeedback "event_key option"
  | Unsubscribe nat nat
  | ClearFeedbackLog

definition step :: "action \<Rightarrow> state \<Rightarrow> state option" where
  "step a s =
     (case a of
        Advance t \<Rightarrow> Some (s\<lparr>now := max (now s) t\<rparr>)
      | Fire \<Rightarrow> fire s
      | Notify msg ty opts gen \<Rightarrow> Some (S_notify msg ty opts gen s)
      | Configure e \<Rightarrow> Some (W_configureFeedback e s)
      | ResetConfig \<Rightarrow> Some (he s)
      | DismissVisual i \<Rightarrow> Some (dismiss i s)
      | DismissAll \<Rightarrow> Some (be s)
      | OnFeedback e l \<Rightarrow> Some (pe e l s)
      | OnAnyFeedback l \<Rightarrow> Some (gt l s)
      | OffFeedback e \<Rightarrow> Some (pt e s)
      | Unsubscribe g i \<Rightarrow> Some (unsubscribe g i s)
      | ClearFeedbackLog \<Rightarrow> Some (s\<lparr>feedbackLog := []\<rparr>))"

fun exec :: "action list \<Rightarrow> state \<Rightarrow> state option" where
  "exec [] s = Some s"
| "exec (a # as) s = (case step a s of None \<Rightarrow> None | Some s' \<Rightarrow> exec as s')"

text \<open>The state when the bundle has been loaded, on a host \<open>h\<close> at time \<open>t0\<close>.\<close>

definition init :: "host \<Rightarrow> int \<Rightarrow> state" where
  "init h t0 =
     \<lparr>now = t0, env = h, activeElement = None, config = DEFAULT_CONFIG, configListeners = 0,
      politeRegion = None, assertiveRegion = None, initialized = False,
      announcer = \<lparr>lastPoliteMessage = None, lastAssertiveMessage = None,
                   lastPoliteTimestamp = 0, lastAssertiveTimestamp = 0, zwcCounter = 0\<rparr>,
      politeTimeoutId = None, assertiveTimeoutId = None,
      recentMessages = Map.empty, activeEvents = Map.empty,
      container = False, styleElement = False, visualItems = [], dismissTimers = [],
      feedbackLog = [], listeners = Map.empty, nextSet = 0,
      timers = [], nextTimer = 1, trace = []\<rparr>"

text \<open>A browser page with no elements of interest, for the concrete runs below.\<close>

definition browser :: host where
  "browser =
     \<lparr>hasDOM = True, reducedMotion = False, getElementById = (\<lambda>_. None),
      querySelector = (\<lambda>_. None), focusMovedTo = (\<lambda>l. str ''Focus moved to '' @ l @ str ''.'')\<rparr>"

definition no_options :: FeedbackOptions where
  "no_options =
     \<lparr>opt_id = None, opt_focus = None, opt_explainFocus = None, opt_force = None,
      opt_timeout = None, opt_className = None\<rparr>"
section \<open>Notions used to state the properties\<close>

text \<open>The members of a listener set, and what one call of a listener lets observe.\<close>

definition set_members :: "event_key \<Rightarrow> state \<Rightarrow> listener list" where
  "set_members e s = (case listeners s e of None \<Rightarrow> [] | Some n \<Rightarrow> members n)"

definition callback_obs :: "event_key \<Rightarrow> payload \<Rightarrow> listener \<Rightarrow> obs list" where
  "callback_obs e t r =
     Delivered (l_id r) e t # (if l_throws r then [ConsoleError (l_id r) e] else [])"

fun delivered_to :: "obs list \<Rightarrow> nat list" where
  "delivered_to [] = []"
| "delivered_to (Delivered i e t # xs) = i # delivered_to xs"
| "delivered_to (x # xs) = delivered_to xs"

text \<open>
  Two states that differ at most in the event bus and the observations, and two states
  that differ at most in the variables of the visual layer and the timers.
\<close>

definition bus_only :: "state \<Rightarrow> state \<Rightarrow> bool" where
  "bus_only s s' \<longleftrightarrow> s'\<lparr>listeners := listeners s, trace := trace s\<rparr> = s"

definition ui_only :: "state \<Rightarrow> state \<Rightarrow> bool" where
  "ui_only s s' \<longleftrightarrow>
     s'\<lparr>configListeners := configListeners s, container := container s,
        styleElement := styleElement s, visualItems := visualItems s,
        dismissTimers := dismissTimers s, timers := timers s, nextTimer := nextTimer s\<rparr> = s"

text \<open>The observations of the focus mediator, and the events that promises settle with.\<close>

fun focus_obs :: "obs \<Rightarrow> bool" where
  "focus_obs (TabindexSet n) = True"
| "focus_obs (FocusCall n) = True"
| "focus_obs x = False"

fun settled :: "obs \<Rightarrow> FeedbackEvent option" where
  "settled (Resolved ev) = Some ev"
| "settled (Rejected ev) = Some ev"
| "settled x = None"

text \<open>An event whose role, politeness and priority are those of the table for its type.\<close>

definition policy_ok :: "FeedbackEvent \<Rightarrow> bool" where
  "policy_ok ev \<longleftrightarrow>
     ev_role ev = role (FEEDBACK_SEMANTICS (ev_type ev)) \<and>
     ev_ariaLive ev = ariaLive (FEEDBACK_SEMANTICS (ev_type ev)) \<and>
     ev_priority ev = priority (FEEDBACK_SEMANTICS (ev_type ev))"

text \<open>Concrete inputs of the runs that the theorems below are instantiated at.\<close>

definition focus_opts :: FeedbackOptions where
  "focus_opts = no_options\<lparr>opt_focus := Some (str ''#email'')\<rparr>"

definition empty_id_opts :: FeedbackOptions where
  "empty_id_opts = no_options\<lparr>opt_id := Some []\<rparr>"

definition empty_id_state :: state where
  "empty_id_state = S_notify (str ''Saved'') Success empty_id_opts (str ''g1'') (init browser 1000)"

definition empty_id_event :: FeedbackEvent where
  "empty_id_event = kt (str ''Saved'') Success empty_id_opts (str ''g2'') 1000"

definition thrower :: listener where
  "thrower = \<lparr>l_id = 1, l_throws = True, l_once = False\<rparr>"

definition quiet :: listener where
  "quiet = \<lparr>l_id = 2, l_throws = False, l_once = False\<rparr>"

text \<open>
  Per channel: the timestamp and the message of the last announcement, the id that
  \<^verbatim>\<open>Re\<close> holds (\<^verbatim>\<open>R\<close> or \<^verbatim>\<open>N\<close>), and the text that \<^verbatim>\<open>Ie\<close> hands to the region for an
  event: the message, with one zero-width character appended when forced or equal to
  the last message.
\<close>

definition last_timestamp :: "AriaLive \<Rightarrow> state \<Rightarrow> int" where
  "last_timestamp n s =
     (if n = Assertive then lastAssertiveTimestamp (announcer s)
      else lastPoliteTimestamp (announcer s))"

definition last_message :: "AriaLive \<Rightarrow> state \<Rightarrow> jsstring option" where
  "last_message n s =
     (if n = Assertive then lastAssertiveMessage (announcer s)
      else lastPoliteMessage (announcer s))"

definition timeout_id :: "AriaLive \<Rightarrow> state \<Rightarrow> nat option" where
  "timeout_id n s = (if n = Assertive then assertiveTimeoutId s else politeTimeoutId s)"

definition is_forced :: "FeedbackEvent \<Rightarrow> state \<Rightarrow> bool" where
  "is_forced e s \<longleftrightarrow>
     opt_force (ev_options e) = Some True \<or>
     Some (ev_message e) = last_message (ev_ariaLive e) s"

definition dom_text :: "FeedbackEvent \<Rightarrow> state \<Rightarrow> jsstring" where
  "dom_text e s =
     (if is_forced e s then ev_message e @ Se (zwcCounter (announcer s)) else ev_message e)"

definition debounced :: "AriaLive \<Rightarrow> state \<Rightarrow> bool" where
  "debounced n s \<longleftrightarrow> now s - last_timestamp n s < ANNOUNCEMENT_DEBOUNCE_MS"

text \<open>
  What \<^verbatim>\<open>ht\<close> computes for an event that is not skipped: the event with its
  \<^verbatim>\<open>replaced\<close> flag, the focus result, and the frame it suspends at \<^verbatim>\<open>await Ie(s)\<close>.
\<close>

definition flagged :: "FeedbackEvent \<Rightarrow> state \<Rightarrow> FeedbackEvent" where
  "flagged e s = e\<lparr>ev_replaced := replacedEvent (fst (Ve e s)) \<noteq> None\<rparr>"

definition pending_of :: "FeedbackEvent \<Rightarrow> state \<Rightarrow> pending" where
  "pending_of e s =
     \<lparr>p_announced =
        (flagged e s)\<lparr>ev_message :=
           Ge (ev_message e) (flagged e s) (fst (qe (flagged e s) s)) s\<rparr>,
      p_event = flagged e s,
      p_replaced = replacedEvent (fst (Ve e s)),
      p_focus = fst (qe (flagged e s) s)\<rparr>"

text \<open>The state in which \<^verbatim>\<open>ht\<close> calls \<^verbatim>\<open>Ie\<close> for an event that is not skipped.\<close>

definition registered :: "FeedbackEvent \<Rightarrow> state \<Rightarrow> state" where
  "registered e s =
     snd (qe (flagged e s)
       (Oe (ev_message e) (ev_type e)
          (Pe (flagged e s) (snd (Ve e (q_initializeRegions s))))))"

text \<open>Both live regions exist and are known to the region manager.\<close>

definition regions_ready :: "state \<Rightarrow> bool" where
  "regions_ready s \<longleftrightarrow> initialized s \<and> politeRegion s \<noteq> None \<and> assertiveRegion s \<noteq> None"

text \<open>
  A run in which a second request arrives 30 ms after the last announcement of its
  channel: \<^verbatim>\<open>notify.success("A")\<close> at 1000, written at 1050; the clock at 1080.
\<close>

definition event_A :: FeedbackEvent where
  "event_A = kt (str ''A'') Success no_options (str ''g1'') 1000"

definition call_A :: state where
  "call_A = S_notify (str ''A'') Success no_options (str ''g1'') (init browser 1000)"

definition spaced_state :: state where
  "spaced_state =
     (publish (pending_of event_A (init browser 1000)) False
        (Ie_resume (pending_of event_A (init browser 1000))
           (De Polite (str ''A'') (call_A\<lparr>timers := [], now := 1050\<rparr>))))\<lparr>now := 1080\<rparr>"

text \<open>
  The timers of the announcement scheduler, as opposed to those of the visual layer, and
  two states of which the second has none of these timers that the first has not.
\<close>

fun core_timer :: "nat \<times> int \<times> timer_action \<Rightarrow> bool" where
  "core_timer (i, d, TDebounce n l k) = True"
| "core_timer (i, d, TClearDelay n l k) = True"
| "core_timer (i, d, x) = False"

definition core_kept :: "state \<Rightarrow> state \<Rightarrow> bool" where
  "core_kept s s' \<longleftrightarrow>
     subseq (filter core_timer (timers s')) (filter core_timer (timers s))"

section \<open>Lemmas\<close>

subsection \<open>What the event bus leaves alone\<close>

lemma bus_only_refl: "bus_only s s"
  by (simp add: bus_only_def)

lemma bus_only_trans:
  assumes "bus_only s s'" and "bus_only s' s''"
  shows "bus_only s s''"
proof -
  have "s''\<lparr>listeners := listeners s', trace := trace s'\<rparr>\<lparr>listeners := listeners s, trace := trace s\<rparr>
      = s'\<lparr>listeners := listeners s, trace := trace s\<rparr>"
    using assms(2) by (simp only: bus_only_def)
  then show ?thesis using assms(1) by (simp add: bus_only_def)
qed

lemma bus_only_try_callback: "bus_only s (try_callback k e t r s)"
  by (simp add: bus_only_def try_callback_def run_callback_def observe_def Let_def
      split: option.splits)

lemma bus_only_forEach: "bus_only s (forEach_listener k e t rs s)"
proof (induction rs arbitrary: s)
  case Nil
  show ?case by (simp add: bus_only_refl)
next
  case (Cons r rs)
  show ?case
    using bus_only_trans [OF bus_only_try_callback Cons.IH] by simp
qed

lemma bus_only_x_emit: "bus_only s (x_emit e t s)"
proof -
  let ?s0 = "observe [Emitted e t] s"
  let ?s1 = "case listeners ?s0 e of None \<Rightarrow> ?s0
             | Some n \<Rightarrow> forEach_listener e e t (members n) ?s0"
  have 0: "bus_only s ?s0"
    by (simp add: bus_only_def observe_def)
  have 1: "bus_only ?s0 ?s1"
    by (cases "listeners ?s0 e") (simp_all add: bus_only_refl bus_only_forEach)
  have 2: "bus_only ?s1 (x_emit e t s)"
    unfolding x_emit_def Let_def
    by (cases "listeners ?s1 EvAny") (simp_all add: bus_only_refl bus_only_forEach)
  show ?thesis
    using bus_only_trans [OF bus_only_trans [OF 0 1] 2] .
qed

lemma bus_only_fields:
  assumes "bus_only s s'"
  shows "now s' = now s"
    and "env s' = env s"
    and "activeElement s' = activeElement s"
    and "config s' = config s"
    and "configListeners s' = configListeners s"
    and "politeRegion s' = politeRegion s"
    and "assertiveRegion s' = assertiveRegion s"
    and "initialized s' = initialized s"
    and "announcer s' = announcer s"
    and "politeTimeoutId s' = politeTimeoutId s"
    and "assertiveTimeoutId s' = assertiveTimeoutId s"
    and "recentMessages s' = recentMessages s"
    and "activeEvents s' = activeEvents s"
    and "container s' = container s"
    and "styleElement s' = styleElement s"
    and "visualItems s' = visualItems s"
    and "dismissTimers s' = dismissTimers s"
    and "feedbackLog s' = feedbackLog s"
    and "nextSet s' = nextSet s"
    and "timers s' = timers s"
    and "nextTimer s' = nextTimer s"
proof -
  have e: "s'\<lparr>listeners := listeners s, trace := trace s\<rparr> = s"
    using assms by (simp add: bus_only_def)
  show "now s' = now s" using arg_cong [OF e, of now] by simp
  show "env s' = env s" using arg_cong [OF e, of env] by simp
  show "activeElement s' = activeElement s" using arg_cong [OF e, of activeElement] by simp
  show "config s' = config s" using arg_cong [OF e, of config] by simp
  show "configListeners s' = configListeners s" using arg_cong [OF e, of configListeners] by simp
  show "politeRegion s' = politeRegion s" using arg_cong [OF e, of politeRegion] by simp
  show "assertiveRegion s' = assertiveRegion s" using arg_cong [OF e, of assertiveRegion] by simp
  show "initialized s' = initialized s" using arg_cong [OF e, of initialized] by simp
  show "announcer s' = announcer s" using arg_cong [OF e, of announcer] by simp
  show "politeTimeoutId s' = politeTimeoutId s" using arg_cong [OF e, of politeTimeoutId] by simp
  show "assertiveTimeoutId s' = assertiveTimeoutId s"
    using arg_cong [OF e, of assertiveTimeoutId] by simp
  show "recentMessages s' = recentMessages s" using arg_cong [OF e, of recentMessages] by simp
  show "activeEvents s' = activeEvents s" using arg_cong [OF e, of activeEvents] by simp
  show "container s' = container s" using arg_cong [OF e, of container] by simp
  show "styleElement s' = styleElement s" using arg_cong [OF e, of styleElement] by simp
  show "visualItems s' = visualItems s" using arg_cong [OF e, of visualItems] by simp
  show "dismissTimers s' = dismissTimers s" using arg_cong [OF e, of dismissTimers] by simp
  show "feedbackLog s' = feedbackLog s" using arg_cong [OF e, of feedbackLog] by simp
  show "nextSet s' = nextSet s" using arg_cong [OF e, of nextSet] by simp
  show "timers s' = timers s" using arg_cong [OF e, of timers] by simp
  show "nextTimer s' = nextTimer s" using arg_cong [OF e, of nextTimer] by simp
qed

lemmas x_emit_fields [simp] = bus_only_fields [OF bus_only_x_emit]

lemma trace_try_callback: "trace (try_callback k e t r s) = trace s @ callback_obs e t r"
  by (simp add: try_callback_def run_callback_def observe_def callback_obs_def Let_def
      split: option.splits)

lemma trace_forEach:
  "trace (forEach_listener k e t rs s) = trace s @ concat (map (callback_obs e t) rs)"
  by (induction rs arbitrary: s) (simp_all add: trace_try_callback)

lemma listeners_try_callback_other:
  "k \<noteq> k' \<Longrightarrow> listeners (try_callback k e t r s) k' = listeners s k'"
  by (simp add: try_callback_def run_callback_def observe_def Let_def split: option.splits)

lemma listeners_forEach_other:
  "k \<noteq> k' \<Longrightarrow> listeners (forEach_listener k e t rs s) k' = listeners s k'"
  by (induction rs arbitrary: s) (simp_all add: listeners_try_callback_other)

lemma trace_x_emit:
  assumes "e \<noteq> EvAny"
  shows "trace (x_emit e t s) =
           trace s @ Emitted e t #
             concat (map (callback_obs e t) (set_members e s @ set_members EvAny s))"
  using assms
  by (simp add: x_emit_def Let_def set_members_def observe_def trace_forEach
      listeners_forEach_other split: option.splits)

lemma delivered_to_append: "delivered_to (xs @ ys) = delivered_to xs @ delivered_to ys"
  by (induction xs rule: delivered_to.induct) simp_all

lemma delivered_to_callbacks:
  "delivered_to (concat (map (callback_obs e t) rs)) = map l_id rs"
  by (induction rs) (simp_all add: callback_obs_def)

subsection \<open>The eviction loop\<close>

lemma length_map_set:
  "map_of xs k \<noteq> None \<Longrightarrow> length (map_set k v xs) = length xs"
  by (induction xs) auto

lemma dismiss_keeps:
  shows "config (dismiss i s) = config s"
    and "length (visualItems (dismiss i s)) = length (visualItems s)"
proof -
  show "config (dismiss i s) = config s"
    by (simp add: dismiss_def Let_def setTimeout_def clearTimeout_def split: option.splits)
  show "length (visualItems (dismiss i s)) = length (visualItems s)"
    by (simp add: dismiss_def Let_def setTimeout_def clearTimeout_def length_map_set
        split: option.splits)
qed

lemma evict_loop_Some:
  assumes "evict_loop s = Some s'"
  shows "\<not> maxVisualItems (config s) \<le> int (length (visualItems s))"
proof -
  have "(\<lambda>a b. \<not> maxVisualItems (config a) \<le> int (length (visualItems a))) s s'"
  proof (rule evict_loop.raw_induct [OF _ assms])
    fix f :: "state \<Rightarrow> state option" and a b
    assume IH: "\<And>x y. f x = Some y \<Longrightarrow>
                  \<not> maxVisualItems (config x) \<le> int (length (visualItems x))"
      and eq: "(if maxVisualItems (config a) \<le> int (length (visualItems a))
                then f (case visualItems a of [] \<Rightarrow> a | kv # x \<Rightarrow> dismiss (fst kv) a)
                else Some a) = Some b"
    show "\<not> maxVisualItems (config a) \<le> int (length (visualItems a))"
    proof
      assume c: "maxVisualItems (config a) \<le> int (length (visualItems a))"
      let ?s1 = "case visualItems a of [] \<Rightarrow> a | kv # x \<Rightarrow> dismiss (fst kv) a"
      have "f ?s1 = Some b" using eq c by simp
      then have "\<not> maxVisualItems (config ?s1) \<le> int (length (visualItems ?s1))"
        by (rule IH)
      then show False using c by (simp add: dismiss_keeps split: list.splits)
    qed
  qed
  then show ?thesis .
qed

lemma evict_loop_hangs:
  "maxVisualItems (config s) \<le> int (length (visualItems s)) \<Longrightarrow> evict_loop s = None"
  using evict_loop_Some [of s] by (cases "evict_loop s") auto

lemma evict_loop_eq:
  "evict_loop s =
     (if maxVisualItems (config s) \<le> int (length (visualItems s)) then None else Some s)"
proof (cases "maxVisualItems (config s) \<le> int (length (visualItems s))")
  case True
  then show ?thesis by (simp add: evict_loop_hangs)
next
  case False
  then show ?thesis by (subst evict_loop.simps) simp
qed

subsection \<open>What the visual layer leaves alone\<close>

lemma ui_only_refl: "ui_only s s"
  by (simp add: ui_only_def)

lemma ui_only_trans:
  assumes "ui_only s s'" and "ui_only s' s''"
  shows "ui_only s s''"
proof -
  have "s''\<lparr>configListeners := configListeners s', container := container s',
        styleElement := styleElement s', visualItems := visualItems s',
        dismissTimers := dismissTimers s', timers := timers s', nextTimer := nextTimer s'\<rparr>
        \<lparr>configListeners := configListeners s, container := container s,
        styleElement := styleElement s, visualItems := visualItems s,
        dismissTimers := dismissTimers s, timers := timers s, nextTimer := nextTimer s\<rparr>
      = s'\<lparr>configListeners := configListeners s, container := container s,
        styleElement := styleElement s, visualItems := visualItems s,
        dismissTimers := dismissTimers s, timers := timers s, nextTimer := nextTimer s\<rparr>"
    using assms(2) by (simp only: ui_only_def)
  then show ?thesis using assms(1) by (simp add: ui_only_def)
qed

lemma ui_only_fields:
  assumes "ui_only s s'"
  shows "now s' = now s"
    and "env s' = env s"
    and "activeElement s' = activeElement s"
    and "config s' = config s"
    and "politeRegion s' = politeRegion s"
    and "assertiveRegion s' = assertiveRegion s"
    and "initialized s' = initialized s"
    and "announcer s' = announcer s"
    and "politeTimeoutId s' = politeTimeoutId s"
    and "assertiveTimeoutId s' = assertiveTimeoutId s"
    and "recentMessages s' = recentMessages s"
    and "activeEvents s' = activeEvents s"
    and "feedbackLog s' = feedbackLog s"
    and "listeners s' = listeners s"
    and "nextSet s' = nextSet s"
    and "trace s' = trace s"
proof -
  have e: "s'\<lparr>configListeners := configListeners s, container := container s,
        styleElement := styleElement s, visualItems := visualItems s,
        dismissTimers := dismissTimers s, timers := timers s, nextTimer := nextTimer s\<rparr> = s"
    using assms by (simp add: ui_only_def)
  show "now s' = now s" using arg_cong [OF e, of now] by simp
  show "env s' = env s" using arg_cong [OF e, of env] by simp
  show "activeElement s' = activeElement s" using arg_cong [OF e, of activeElement] by simp
  show "config s' = config s" using arg_cong [OF e, of config] by simp
  show "politeRegion s' = politeRegion s" using arg_cong [OF e, of politeRegion] by simp
  show "assertiveRegion s' = assertiveRegion s" using arg_cong [OF e, of assertiveRegion] by simp
  show "initialized s' = initialized s" using arg_cong [OF e, of initialized] by simp
  show "announcer s' = announcer s" using arg_cong [OF e, of announcer] by simp
  show "politeTimeoutId s' = politeTimeoutId s" using arg_cong [OF e, of politeTimeoutId] by simp
  show "assertiveTimeoutId s' = assertiveTimeoutId s"
    using arg_cong [OF e, of assertiveTimeoutId] by simp
  show "recentMessages s' = recentMessages s" using arg_cong [OF e, of recentMessages] by simp
  show "activeEvents s' = activeEvents s" using arg_cong [OF e, of activeEvents] by simp
  show "feedbackLog s' = feedbackLog s" using arg_cong [OF e, of feedbackLog] by simp
  show "listeners s' = listeners s" using arg_cong [OF e, of listeners] by simp
  show "nextSet s' = nextSet s" using arg_cong [OF e, of nextSet] by simp
  show "trace s' = trace s" using arg_cong [OF e, of trace] by simp
qed

lemma ui_only_de: "ui_only s (de s)" by (simp add: ui_only_def de_def)
lemma ui_only_ue: "ui_only s (ue s)" by (simp add: ui_only_def ue_def)
lemma ui_only_le: "ui_only s (le s)" by (simp add: ui_only_def le_def de_def ue_def)
lemma ui_only_clearTimeout: "ui_only s (clearTimeout i s)" by (simp add: ui_only_def clearTimeout_def)
lemma ui_only_me: "ui_only s (me e s)"
  by (simp add: ui_only_def me_def Let_def setTimeout_def split: option.splits jsnumber.splits)
lemma ui_only_dismiss: "ui_only s (dismiss i s)"
  by (simp add: ui_only_def dismiss_def Let_def setTimeout_def clearTimeout_def split: option.splits)

lemma ui_only_fold:
  assumes "\<And>x s. ui_only s (f x s)"
  shows "ui_only s (fold f xs s)"
proof (induction xs arbitrary: s)
  case Nil
  show ?case by (simp add: ui_only_refl)
next
  case (Cons x xs)
  show ?case using ui_only_trans [OF assms Cons.IH] by simp
qed

lemma ui_only_be: "ui_only s (be s)"
  unfolding be_def by (rule ui_only_fold) (rule ui_only_dismiss)

lemma ui_only_nt: "ui_only s (nt s)"
proof -
  let ?s1 = "be s"
  let ?s2 = "?s1\<lparr>container := False, styleElement := False\<rparr>"
  let ?s3 = "fold clearTimeout (map snd (dismissTimers ?s2)) ?s2"
  have a: "ui_only ?s1 ?s2" by (simp add: ui_only_def)
  have b: "ui_only ?s2 ?s3" by (rule ui_only_fold) (rule ui_only_clearTimeout)
  have c: "ui_only ?s3 (?s3\<lparr>dismissTimers := []\<rparr>)" by (simp add: ui_only_def)
  have "ui_only s (?s3\<lparr>dismissTimers := []\<rparr>)"
    using ui_only_trans [OF ui_only_trans [OF ui_only_trans [OF ui_only_be a] b] c] .
  then show ?thesis by (simp add: nt_def Let_def)
qed

lemma ui_only_config_listener: "ui_only s (config_listener s)"
  unfolding config_listener_def
  using ui_only_trans [OF ui_only_de ui_only_ue] ui_only_nt by simp

lemma ui_only_funpow:
  assumes "\<And>s. ui_only s (f s)"
  shows "ui_only s ((f ^^ n) s)"
proof (induction n)
  case 0
  show ?case by (simp add: ui_only_refl)
next
  case (Suc n)
  show ?case using ui_only_trans [OF Suc assms] by simp
qed

lemma ui_only_J: "ui_only s (J_notifyListeners s)"
  unfolding J_notifyListeners_def by (rule ui_only_funpow) (rule ui_only_config_listener)

lemma ui_only_fe: "fe e s = Some s' \<Longrightarrow> ui_only s s'"
proof -
  assume a: "fe e s = Some s'"
  let ?s1 = "le s"
  let ?s2 = "?s1\<lparr>visualItems := map_set (ev_id e)
             \<lparr>v_type = ev_type e, v_message = ev_message e, v_exiting = False\<rparr> (visualItems ?s1)\<rparr>"
  have 1: "ui_only s ?s1" by (rule ui_only_le)
  have 2: "ui_only ?s1 ?s2" by (simp add: ui_only_def)
  have 3: "ui_only ?s2 (me e ?s2)" by (rule ui_only_me)
  have "s' = s \<or> s' = ?s1 \<or> s' = me e ?s2"
    using a by (simp add: fe_def Let_def evict_loop_eq split: if_splits)
  then show ?thesis
    using ui_only_refl 1 ui_only_trans [OF ui_only_trans [OF 1 2] 3] by blast
qed

lemma ui_only_et: "et e s = Some s' \<Longrightarrow> ui_only s s'"
proof (cases "map_of (visualItems s) (ev_id e)")
  case None
  assume "et e s = Some s'"
  then show ?thesis using None ui_only_fe by (simp add: et_def)
next
  case (Some t)
  assume a: "et e s = Some s'"
  let ?s1 = "s\<lparr>visualItems := map_set (ev_id e) (t\<lparr>v_message := ev_message e, v_type := ev_type e\<rparr>) (visualItems s)\<rparr>"
  let ?s2 = "case map_of (dismissTimers ?s1) (ev_id e) of
               Some r \<Rightarrow> (clearTimeout r ?s1)\<lparr>dismissTimers := map_delete (ev_id e) (dismissTimers ?s1)\<rparr>
             | None \<Rightarrow> ?s1"
  have 1: "ui_only s ?s1" by (simp add: ui_only_def)
  have 2: "ui_only ?s1 ?s2" by (simp add: ui_only_def clearTimeout_def split: option.splits)
  have 3: "ui_only ?s2 (me e ?s2)" by (rule ui_only_me)
  have "s' = me e ?s2" using a Some by (simp add: et_def Let_def)
  then show ?thesis using ui_only_trans [OF ui_only_trans [OF 1 2] 3] by simp
qed

lemma show_visual_frame:
  assumes "show_visual k s = Some (l, s1)"
  shows "ui_only s s1" and "l = visual (config s)"
proof -
  show "l = visual (config s)"
    using assms by (simp add: show_visual_def split: if_splits option.splits)
  show "ui_only s s1"
  proof (cases "visual (config s)")
    case False
    then show ?thesis using assms by (simp add: show_visual_def ui_only_refl)
  next
    case True
    then have "et (p_event k) (le s) = Some s1 \<or> fe (p_event k) (le s) = Some s1"
      using assms by (simp add: show_visual_def split: if_splits option.splits)
    then have "ui_only (le s) s1" using ui_only_et ui_only_fe by blast
    then show ?thesis using ui_only_trans [OF ui_only_le] by blast
  qed
qed

subsection \<open>The variables that each function leaves unchanged\<close>

lemma observe_fields [simp]:
  shows "now (observe xs s) = now s"
    and "env (observe xs s) = env s"
    and "activeElement (observe xs s) = activeElement s"
    and "config (observe xs s) = config s"
    and "configListeners (observe xs s) = configListeners s"
    and "politeRegion (observe xs s) = politeRegion s"
    and "assertiveRegion (observe xs s) = assertiveRegion s"
    and "initialized (observe xs s) = initialized s"
    and "announcer (observe xs s) = announcer s"
    and "politeTimeoutId (observe xs s) = politeTimeoutId s"
    and "assertiveTimeoutId (observe xs s) = assertiveTimeoutId s"
    and "recentMessages (observe xs s) = recentMessages s"
    and "activeEvents (observe xs s) = activeEvents s"
    and "container (observe xs s) = container s"
    and "styleElement (observe xs s) = styleElement s"
    and "visualItems (observe xs s) = visualItems s"
    and "dismissTimers (observe xs s) = dismissTimers s"
    and "feedbackLog (observe xs s) = feedbackLog s"
    and "listeners (observe xs s) = listeners s"
    and "nextSet (observe xs s) = nextSet s"
    and "timers (observe xs s) = timers s"
    and "nextTimer (observe xs s) = nextTimer s"
  by (simp_all add: observe_def)

lemma setTimeout_fields [simp]:
  shows "now (snd (setTimeout a d s)) = now s"
    and "env (snd (setTimeout a d s)) = env s"
    and "activeElement (snd (setTimeout a d s)) = activeElement s"
    and "config (snd (setTimeout a d s)) = config s"
    and "configListeners (snd (setTimeout a d s)) = configListeners s"
    and "politeRegion (snd (setTimeout a d s)) = politeRegion s"
    and "assertiveRegion (snd (setTimeout a d s)) = assertiveRegion s"
    and "initialized (snd (setTimeout a d s)) = initialized s"
    and "announcer (snd (setTimeout a d s)) = announcer s"
    and "politeTimeoutId (snd (setTimeout a d s)) = politeTimeoutId s"
    and "assertiveTimeoutId (snd (setTimeout a d s)) = assertiveTimeoutId s"
    and "recentMessages (snd (setTimeout a d s)) = recentMessages s"
    and "activeEvents (snd (setTimeout a d s)) = activeEvents s"
    and "container (snd (setTimeout a d s)) = container s"
    and "styleElement (snd (setTimeout a d s)) = styleElement s"
    and "visualItems (snd (setTimeout a d s)) = visualItems s"
    and "dismissTimers (snd (setTimeout a d s)) = dismissTimers s"
    and "feedbackLog (snd (setTimeout a d s)) = feedbackLog s"
    and "listeners (snd (setTimeout a d s)) = listeners s"
    and "nextSet (snd (setTimeout a d s)) = nextSet s"
    and "trace (snd (setTimeout a d s)) = trace s"
  by (simp_all add: setTimeout_def)

lemma clearTimeout_fields [simp]:
  shows "now (clearTimeout i s) = now s"
    and "env (clearTimeout i s) = env s"
    and "activeElement (clearTimeout i s) = activeElement s"
    and "config (clearTimeout i s) = config s"
    and "configListeners (clearTimeout i s) = configListeners s"
    and "politeRegion (clearTimeout i s) = politeRegion s"
    and "assertiveRegion (clearTimeout i s) = assertiveRegion s"
    and "initialized (clearTimeout i s) = initialized s"
    and "announcer (clearTimeout i s) = announcer s"
    and "politeTimeoutId (clearTimeout i s) = politeTimeoutId s"
    and "assertiveTimeoutId (clearTimeout i s) = assertiveTimeoutId s"
    and "recentMessages (clearTimeout i s) = recentMessages s"
    and "activeEvents (clearTimeout i s) = activeEvents s"
    and "container (clearTimeout i s) = container s"
    and "styleElement (clearTimeout i s) = styleElement s"
    and "visualItems (clearTimeout i s) = visualItems s"
    and "dismissTimers (clearTimeout i s) = dismissTimers s"
    and "feedbackLog (clearTimeout i s) = feedbackLog s"
    and "listeners (clearTimeout i s) = listeners s"
    and "nextSet (clearTimeout i s) = nextSet s"
    and "nextTimer (clearTimeout i s) = nextTimer s"
    and "trace (clearTimeout i s) = trace s"
  by (simp_all add: clearTimeout_def)

lemma q_initializeRegions_fields [simp]:
  shows "now (q_initializeRegions s) = now s"
    and "env (q_initializeRegions s) = env s"
    and "activeElement (q_initializeRegions s) = activeElement s"
    and "config (q_initializeRegions s) = config s"
    and "configListeners (q_initializeRegions s) = configListeners s"
    and "announcer (q_initializeRegions s) = announcer s"
    and "politeTimeoutId (q_initializeRegions s) = politeTimeoutId s"
    and "assertiveTimeoutId (q_initializeRegions s) = assertiveTimeoutId s"
    and "recentMessages (q_initializeRegions s) = recentMessages s"
    and "activeEvents (q_initializeRegions s) = activeEvents s"
    and "container (q_initializeRegions s) = container s"
    and "styleElement (q_initializeRegions s) = styleElement s"
    and "visualItems (q_initializeRegions s) = visualItems s"
    and "dismissTimers (q_initializeRegions s) = dismissTimers s"
    and "feedbackLog (q_initializeRegions s) = feedbackLog s"
    and "listeners (q_initializeRegions s) = listeners s"
    and "nextSet (q_initializeRegions s) = nextSet s"
    and "timers (q_initializeRegions s) = timers s"
    and "nextTimer (q_initializeRegions s) = nextTimer s"
    and "trace (q_initializeRegions s) = trace s"
  by (simp_all add: q_initializeRegions_def Let_def)

lemma xe_fields [simp]:
  shows "now (snd (xe e s)) = now s"
    and "env (snd (xe e s)) = env s"
    and "activeElement (snd (xe e s)) = activeElement s"
    and "config (snd (xe e s)) = config s"
    and "configListeners (snd (xe e s)) = configListeners s"
    and "announcer (snd (xe e s)) = announcer s"
    and "politeTimeoutId (snd (xe e s)) = politeTimeoutId s"
    and "assertiveTimeoutId (snd (xe e s)) = assertiveTimeoutId s"
    and "recentMessages (snd (xe e s)) = recentMessages s"
    and "activeEvents (snd (xe e s)) = activeEvents s"
    and "container (snd (xe e s)) = container s"
    and "styleElement (snd (xe e s)) = styleElement s"
    and "visualItems (snd (xe e s)) = visualItems s"
    and "dismissTimers (snd (xe e s)) = dismissTimers s"
    and "feedbackLog (snd (xe e s)) = feedbackLog s"
    and "listeners (snd (xe e s)) = listeners s"
    and "nextSet (snd (xe e s)) = nextSet s"
    and "timers (snd (xe e s)) = timers s"
    and "nextTimer (snd (xe e s)) = nextTimer s"
    and "trace (snd (xe e s)) = trace s"
  by (simp_all add: xe_def Let_def)

lemma assign_text_fields [simp]:
  shows "now (assign_text e t s) = now s"
    and "env (assign_text e t s) = env s"
    and "activeElement (assign_text e t s) = activeElement s"
    and "config (assign_text e t s) = config s"
    and "configListeners (assign_text e t s) = configListeners s"
    and "initialized (assign_text e t s) = initialized s"
    and "announcer (assign_text e t s) = announcer s"
    and "politeTimeoutId (assign_text e t s) = politeTimeoutId s"
    and "assertiveTimeoutId (assign_text e t s) = assertiveTimeoutId s"
    and "recentMessages (assign_text e t s) = recentMessages s"
    and "activeEvents (assign_text e t s) = activeEvents s"
    and "container (assign_text e t s) = container s"
    and "styleElement (assign_text e t s) = styleElement s"
    and "visualItems (assign_text e t s) = visualItems s"
    and "dismissTimers (assign_text e t s) = dismissTimers s"
    and "feedbackLog (assign_text e t s) = feedbackLog s"
    and "listeners (assign_text e t s) = listeners s"
    and "nextSet (assign_text e t s) = nextSet s"
    and "timers (assign_text e t s) = timers s"
    and "nextTimer (assign_text e t s) = nextTimer s"
    and "trace (assign_text e t s) = trace s"
  by (simp_all add: assign_text_def)

lemma De_fields [simp]:
  shows "now (De e t s) = now s"
    and "env (De e t s) = env s"
    and "activeElement (De e t s) = activeElement s"
    and "config (De e t s) = config s"
    and "configListeners (De e t s) = configListeners s"
    and "announcer (De e t s) = announcer s"
    and "politeTimeoutId (De e t s) = politeTimeoutId s"
    and "assertiveTimeoutId (De e t s) = assertiveTimeoutId s"
    and "recentMessages (De e t s) = recentMessages s"
    and "activeEvents (De e t s) = activeEvents s"
    and "container (De e t s) = container s"
    and "styleElement (De e t s) = styleElement s"
    and "visualItems (De e t s) = visualItems s"
    and "dismissTimers (De e t s) = dismissTimers s"
    and "feedbackLog (De e t s) = feedbackLog s"
    and "listeners (De e t s) = listeners s"
    and "nextSet (De e t s) = nextSet s"
    and "timers (De e t s) = timers s"
    and "nextTimer (De e t s) = nextTimer s"
  by (simp_all add: De_def Let_def split_def)

lemma Ne_fields [simp]:
  shows "now (snd (Ne e s)) = now s"
    and "env (snd (Ne e s)) = env s"
    and "activeElement (snd (Ne e s)) = activeElement s"
    and "config (snd (Ne e s)) = config s"
    and "configListeners (snd (Ne e s)) = configListeners s"
    and "politeRegion (snd (Ne e s)) = politeRegion s"
    and "assertiveRegion (snd (Ne e s)) = assertiveRegion s"
    and "initialized (snd (Ne e s)) = initialized s"
    and "politeTimeoutId (snd (Ne e s)) = politeTimeoutId s"
    and "assertiveTimeoutId (snd (Ne e s)) = assertiveTimeoutId s"
    and "recentMessages (snd (Ne e s)) = recentMessages s"
    and "activeEvents (snd (Ne e s)) = activeEvents s"
    and "container (snd (Ne e s)) = container s"
    and "styleElement (snd (Ne e s)) = styleElement s"
    and "visualItems (snd (Ne e s)) = visualItems s"
    and "dismissTimers (snd (Ne e s)) = dismissTimers s"
    and "feedbackLog (snd (Ne e s)) = feedbackLog s"
    and "listeners (snd (Ne e s)) = listeners s"
    and "nextSet (snd (Ne e s)) = nextSet s"
    and "timers (snd (Ne e s)) = timers s"
    and "nextTimer (snd (Ne e s)) = nextTimer s"
    and "trace (snd (Ne e s)) = trace s"
  by (simp_all add: Ne_def Let_def)

lemma X_write_fields [simp]:
  shows "now (X_write e t k s) = now s"
    and "env (X_write e t k s) = env s"
    and "activeElement (X_write e t k s) = activeElement s"
    and "config (X_write e t k s) = config s"
    and "configListeners (X_write e t k s) = configListeners s"
    and "politeRegion (X_write e t k s) = politeRegion s"
    and "assertiveRegion (X_write e t k s) = assertiveRegion s"
    and "initialized (X_write e t k s) = initialized s"
    and "announcer (X_write e t k s) = announcer s"
    and "politeTimeoutId (X_write e t k s) = politeTimeoutId s"
    and "assertiveTimeoutId (X_write e t k s) = assertiveTimeoutId s"
    and "recentMessages (X_write e t k s) = recentMessages s"
    and "activeEvents (X_write e t k s) = activeEvents s"
    and "container (X_write e t k s) = container s"
    and "styleElement (X_write e t k s) = styleElement s"
    and "visualItems (X_write e t k s) = visualItems s"
    and "dismissTimers (X_write e t k s) = dismissTimers s"
    and "feedbackLog (X_write e t k s) = feedbackLog s"
    and "listeners (X_write e t k s) = listeners s"
    and "nextSet (X_write e t k s) = nextSet s"
    and "trace (X_write e t k s) = trace s"
  by (simp_all add: X_write_def)

lemma Re_fields [simp]:
  shows "now (Re t n k s) = now s"
    and "env (Re t n k s) = env s"
    and "activeElement (Re t n k s) = activeElement s"
    and "config (Re t n k s) = config s"
    and "configListeners (Re t n k s) = configListeners s"
    and "politeRegion (Re t n k s) = politeRegion s"
    and "assertiveRegion (Re t n k s) = assertiveRegion s"
    and "initialized (Re t n k s) = initialized s"
    and "announcer (Re t n k s) = announcer s"
    and "recentMessages (Re t n k s) = recentMessages s"
    and "activeEvents (Re t n k s) = activeEvents s"
    and "container (Re t n k s) = container s"
    and "styleElement (Re t n k s) = styleElement s"
    and "visualItems (Re t n k s) = visualItems s"
    and "dismissTimers (Re t n k s) = dismissTimers s"
    and "feedbackLog (Re t n k s) = feedbackLog s"
    and "listeners (Re t n k s) = listeners s"
    and "nextSet (Re t n k s) = nextSet s"
    and "trace (Re t n k s) = trace s"
  by (simp_all add: Re_def Let_def split_def split: option.splits)

lemma Ie_fields [simp]:
  shows "now (Ie k s) = now s"
    and "env (Ie k s) = env s"
    and "activeElement (Ie k s) = activeElement s"
    and "config (Ie k s) = config s"
    and "configListeners (Ie k s) = configListeners s"
    and "recentMessages (Ie k s) = recentMessages s"
    and "activeEvents (Ie k s) = activeEvents s"
    and "container (Ie k s) = container s"
    and "styleElement (Ie k s) = styleElement s"
    and "visualItems (Ie k s) = visualItems s"
    and "dismissTimers (Ie k s) = dismissTimers s"
    and "feedbackLog (Ie k s) = feedbackLog s"
    and "listeners (Ie k s) = listeners s"
    and "nextSet (Ie k s) = nextSet s"
    and "trace (Ie k s) = trace s"
  by (simp_all add: Ie_def Let_def split_def)

lemma Ie_resume_fields [simp]:
  shows "now (Ie_resume k s) = now s"
    and "env (Ie_resume k s) = env s"
    and "activeElement (Ie_resume k s) = activeElement s"
    and "config (Ie_resume k s) = config s"
    and "configListeners (Ie_resume k s) = configListeners s"
    and "politeRegion (Ie_resume k s) = politeRegion s"
    and "assertiveRegion (Ie_resume k s) = assertiveRegion s"
    and "initialized (Ie_resume k s) = initialized s"
    and "politeTimeoutId (Ie_resume k s) = politeTimeoutId s"
    and "assertiveTimeoutId (Ie_resume k s) = assertiveTimeoutId s"
    and "recentMessages (Ie_resume k s) = recentMessages s"
    and "activeEvents (Ie_resume k s) = activeEvents s"
    and "container (Ie_resume k s) = container s"
    and "styleElement (Ie_resume k s) = styleElement s"
    and "visualItems (Ie_resume k s) = visualItems s"
    and "dismissTimers (Ie_resume k s) = dismissTimers s"
    and "feedbackLog (Ie_resume k s) = feedbackLog s"
    and "listeners (Ie_resume k s) = listeners s"
    and "nextSet (Ie_resume k s) = nextSet s"
    and "timers (Ie_resume k s) = timers s"
    and "nextTimer (Ie_resume k s) = nextTimer s"
    and "trace (Ie_resume k s) = trace s"
  by (simp_all add: Ie_resume_def Let_def)

lemma Ue_fields [simp]:
  shows "now (Ue s) = now s"
    and "env (Ue s) = env s"
    and "activeElement (Ue s) = activeElement s"
    and "config (Ue s) = config s"
    and "configListeners (Ue s) = configListeners s"
    and "politeRegion (Ue s) = politeRegion s"
    and "assertiveRegion (Ue s) = assertiveRegion s"
    and "initialized (Ue s) = initialized s"
    and "announcer (Ue s) = announcer s"
    and "politeTimeoutId (Ue s) = politeTimeoutId s"
    and "assertiveTimeoutId (Ue s) = assertiveTimeoutId s"
    and "activeEvents (Ue s) = activeEvents s"
    and "container (Ue s) = container s"
    and "styleElement (Ue s) = styleElement s"
    and "visualItems (Ue s) = visualItems s"
    and "dismissTimers (Ue s) = dismissTimers s"
    and "feedbackLog (Ue s) = feedbackLog s"
    and "listeners (Ue s) = listeners s"
    and "nextSet (Ue s) = nextSet s"
    and "timers (Ue s) = timers s"
    and "nextTimer (Ue s) = nextTimer s"
    and "trace (Ue s) = trace s"
  by (simp_all add: Ue_def Let_def)

lemma Oe_fields [simp]:
  shows "now (Oe e t s) = now s"
    and "env (Oe e t s) = env s"
    and "activeElement (Oe e t s) = activeElement s"
    and "config (Oe e t s) = config s"
    and "configListeners (Oe e t s) = configListeners s"
    and "politeRegion (Oe e t s) = politeRegion s"
    and "assertiveRegion (Oe e t s) = assertiveRegion s"
    and "initialized (Oe e t s) = initialized s"
    and "announcer (Oe e t s) = announcer s"
    and "politeTimeoutId (Oe e t s) = politeTimeoutId s"
    and "assertiveTimeoutId (Oe e t s) = assertiveTimeoutId s"
    and "activeEvents (Oe e t s) = activeEvents s"
    and "container (Oe e t s) = container s"
    and "styleElement (Oe e t s) = styleElement s"
    and "visualItems (Oe e t s) = visualItems s"
    and "dismissTimers (Oe e t s) = dismissTimers s"
    and "feedbackLog (Oe e t s) = feedbackLog s"
    and "listeners (Oe e t s) = listeners s"
    and "nextSet (Oe e t s) = nextSet s"
    and "timers (Oe e t s) = timers s"
    and "nextTimer (Oe e t s) = nextTimer s"
    and "trace (Oe e t s) = trace s"
  by (simp_all add: Oe_def)

lemma Pe_fields [simp]:
  shows "now (Pe e s) = now s"
    and "env (Pe e s) = env s"
    and "activeElement (Pe e s) = activeElement s"
    and "config (Pe e s) = config s"
    and "configListeners (Pe e s) = configListeners s"
    and "politeRegion (Pe e s) = politeRegion s"
    and "assertiveRegion (Pe e s) = assertiveRegion s"
    and "initialized (Pe e s) = initialized s"
    and "announcer (Pe e s) = announcer s"
    and "politeTimeoutId (Pe e s) = politeTimeoutId s"
    and "assertiveTimeoutId (Pe e s) = assertiveTimeoutId s"
    and "recentMessages (Pe e s) = recentMessages s"
    and "container (Pe e s) = container s"
    and "styleElement (Pe e s) = styleElement s"
    and "visualItems (Pe e s) = visualItems s"
    and "dismissTimers (Pe e s) = dismissTimers s"
    and "feedbackLog (Pe e s) = feedbackLog s"
    and "listeners (Pe e s) = listeners s"
    and "nextSet (Pe e s) = nextSet s"
    and "timers (Pe e s) = timers s"
    and "nextTimer (Pe e s) = nextTimer s"
    and "trace (Pe e s) = trace s"
  by (simp_all add: Pe_def)

lemma ae_fields [simp]:
  shows "now (ae e s) = now s"
    and "env (ae e s) = env s"
    and "activeElement (ae e s) = activeElement s"
    and "config (ae e s) = config s"
    and "configListeners (ae e s) = configListeners s"
    and "politeRegion (ae e s) = politeRegion s"
    and "assertiveRegion (ae e s) = assertiveRegion s"
    and "initialized (ae e s) = initialized s"
    and "announcer (ae e s) = announcer s"
    and "politeTimeoutId (ae e s) = politeTimeoutId s"
    and "assertiveTimeoutId (ae e s) = assertiveTimeoutId s"
    and "recentMessages (ae e s) = recentMessages s"
    and "container (ae e s) = container s"
    and "styleElement (ae e s) = styleElement s"
    and "visualItems (ae e s) = visualItems s"
    and "dismissTimers (ae e s) = dismissTimers s"
    and "feedbackLog (ae e s) = feedbackLog s"
    and "listeners (ae e s) = listeners s"
    and "nextSet (ae e s) = nextSet s"
    and "timers (ae e s) = timers s"
    and "nextTimer (ae e s) = nextTimer s"
    and "trace (ae e s) = trace s"
  by (simp_all add: ae_def)

lemma content_check_fields [simp]:
  shows "now (snd (content_check e s)) = now s"
    and "env (snd (content_check e s)) = env s"
    and "activeElement (snd (content_check e s)) = activeElement s"
    and "config (snd (content_check e s)) = config s"
    and "configListeners (snd (content_check e s)) = configListeners s"
    and "politeRegion (snd (content_check e s)) = politeRegion s"
    and "assertiveRegion (snd (content_check e s)) = assertiveRegion s"
    and "initialized (snd (content_check e s)) = initialized s"
    and "announcer (snd (content_check e s)) = announcer s"
    and "politeTimeoutId (snd (content_check e s)) = politeTimeoutId s"
    and "assertiveTimeoutId (snd (content_check e s)) = assertiveTimeoutId s"
    and "recentMessages (snd (content_check e s)) = recentMessages s"
    and "activeEvents (snd (content_check e s)) = activeEvents s"
    and "container (snd (content_check e s)) = container s"
    and "styleElement (snd (content_check e s)) = styleElement s"
    and "visualItems (snd (content_check e s)) = visualItems s"
    and "dismissTimers (snd (content_check e s)) = dismissTimers s"
    and "feedbackLog (snd (content_check e s)) = feedbackLog s"
    and "listeners (snd (content_check e s)) = listeners s"
    and "nextSet (snd (content_check e s)) = nextSet s"
    and "timers (snd (content_check e s)) = timers s"
    and "nextTimer (snd (content_check e s)) = nextTimer s"
    and "trace (snd (content_check e s)) = trace s"
  by (simp_all add: content_check_def)

lemma Ve_fields [simp]:
  shows "now (snd (Ve e s)) = now s"
    and "env (snd (Ve e s)) = env s"
    and "activeElement (snd (Ve e s)) = activeElement s"
    and "config (snd (Ve e s)) = config s"
    and "configListeners (snd (Ve e s)) = configListeners s"
    and "politeRegion (snd (Ve e s)) = politeRegion s"
    and "assertiveRegion (snd (Ve e s)) = assertiveRegion s"
    and "initialized (snd (Ve e s)) = initialized s"
    and "announcer (snd (Ve e s)) = announcer s"
    and "politeTimeoutId (snd (Ve e s)) = politeTimeoutId s"
    and "assertiveTimeoutId (snd (Ve e s)) = assertiveTimeoutId s"
    and "recentMessages (snd (Ve e s)) = recentMessages s"
    and "container (snd (Ve e s)) = container s"
    and "styleElement (snd (Ve e s)) = styleElement s"
    and "visualItems (snd (Ve e s)) = visualItems s"
    and "dismissTimers (snd (Ve e s)) = dismissTimers s"
    and "feedbackLog (snd (Ve e s)) = feedbackLog s"
    and "listeners (snd (Ve e s)) = listeners s"
    and "nextSet (snd (Ve e s)) = nextSet s"
    and "timers (snd (Ve e s)) = timers s"
    and "nextTimer (snd (Ve e s)) = nextTimer s"
    and "trace (snd (Ve e s)) = trace s"
  by (simp_all add: Ve_def split: option.splits)

lemma Xe_fields [simp]:
  shows "now (snd (Xe e s)) = now s"
    and "env (snd (Xe e s)) = env s"
    and "config (snd (Xe e s)) = config s"
    and "configListeners (snd (Xe e s)) = configListeners s"
    and "politeRegion (snd (Xe e s)) = politeRegion s"
    and "assertiveRegion (snd (Xe e s)) = assertiveRegion s"
    and "initialized (snd (Xe e s)) = initialized s"
    and "announcer (snd (Xe e s)) = announcer s"
    and "politeTimeoutId (snd (Xe e s)) = politeTimeoutId s"
    and "assertiveTimeoutId (snd (Xe e s)) = assertiveTimeoutId s"
    and "recentMessages (snd (Xe e s)) = recentMessages s"
    and "activeEvents (snd (Xe e s)) = activeEvents s"
    and "container (snd (Xe e s)) = container s"
    and "styleElement (snd (Xe e s)) = styleElement s"
    and "visualItems (snd (Xe e s)) = visualItems s"
    and "dismissTimers (snd (Xe e s)) = dismissTimers s"
    and "feedbackLog (snd (Xe e s)) = feedbackLog s"
    and "listeners (snd (Xe e s)) = listeners s"
    and "nextSet (snd (Xe e s)) = nextSet s"
    and "timers (snd (Xe e s)) = timers s"
    and "nextTimer (snd (Xe e s)) = nextTimer s"
  by (simp_all add: Xe_def Let_def split: option.splits)

lemma qe_fields [simp]:
  shows "now (snd (qe e s)) = now s"
    and "env (snd (qe e s)) = env s"
    and "config (snd (qe e s)) = config s"
    and "configListeners (snd (qe e s)) = configListeners s"
    and "politeRegion (snd (qe e s)) = politeRegion s"
    and "assertiveRegion (snd (qe e s)) = assertiveRegion s"
    and "initialized (snd (qe e s)) = initialized s"
    and "announcer (snd (qe e s)) = announcer s"
    and "politeTimeoutId (snd (qe e s)) = politeTimeoutId s"
    and "assertiveTimeoutId (snd (qe e s)) = assertiveTimeoutId s"
    and "recentMessages (snd (qe e s)) = recentMessages s"
    and "activeEvents (snd (qe e s)) = activeEvents s"
    and "container (snd (qe e s)) = container s"
    and "styleElement (snd (qe e s)) = styleElement s"
    and "visualItems (snd (qe e s)) = visualItems s"
    and "dismissTimers (snd (qe e s)) = dismissTimers s"
    and "feedbackLog (snd (qe e s)) = feedbackLog s"
    and "listeners (snd (qe e s)) = listeners s"
    and "nextSet (snd (qe e s)) = nextSet s"
    and "timers (snd (qe e s)) = timers s"
    and "nextTimer (snd (qe e s)) = nextTimer s"
  by (simp_all add: qe_def Let_def split: option.splits)

lemma ge_fields [simp]:
  shows "now (ge e t a b c s) = now s"
    and "env (ge e t a b c s) = env s"
    and "activeElement (ge e t a b c s) = activeElement s"
    and "config (ge e t a b c s) = config s"
    and "configListeners (ge e t a b c s) = configListeners s"
    and "politeRegion (ge e t a b c s) = politeRegion s"
    and "assertiveRegion (ge e t a b c s) = assertiveRegion s"
    and "initialized (ge e t a b c s) = initialized s"
    and "announcer (ge e t a b c s) = announcer s"
    and "politeTimeoutId (ge e t a b c s) = politeTimeoutId s"
    and "assertiveTimeoutId (ge e t a b c s) = assertiveTimeoutId s"
    and "recentMessages (ge e t a b c s) = recentMessages s"
    and "activeEvents (ge e t a b c s) = activeEvents s"
    and "container (ge e t a b c s) = container s"
    and "styleElement (ge e t a b c s) = styleElement s"
    and "visualItems (ge e t a b c s) = visualItems s"
    and "dismissTimers (ge e t a b c s) = dismissTimers s"
    and "listeners (ge e t a b c s) = listeners s"
    and "nextSet (ge e t a b c s) = nextSet s"
    and "timers (ge e t a b c s) = timers s"
    and "nextTimer (ge e t a b c s) = nextTimer s"
  by (simp_all add: ge_def Let_def)

lemma emit_announced_fields [simp]:
  shows "now (emit_announced k s) = now s"
    and "env (emit_announced k s) = env s"
    and "activeElement (emit_announced k s) = activeElement s"
    and "config (emit_announced k s) = config s"
    and "configListeners (emit_announced k s) = configListeners s"
    and "politeRegion (emit_announced k s) = politeRegion s"
    and "assertiveRegion (emit_announced k s) = assertiveRegion s"
    and "initialized (emit_announced k s) = initialized s"
    and "announcer (emit_announced k s) = announcer s"
    and "politeTimeoutId (emit_announced k s) = politeTimeoutId s"
    and "assertiveTimeoutId (emit_announced k s) = assertiveTimeoutId s"
    and "recentMessages (emit_announced k s) = recentMessages s"
    and "activeEvents (emit_announced k s) = activeEvents s"
    and "container (emit_announced k s) = container s"
    and "styleElement (emit_announced k s) = styleElement s"
    and "visualItems (emit_announced k s) = visualItems s"
    and "dismissTimers (emit_announced k s) = dismissTimers s"
    and "feedbackLog (emit_announced k s) = feedbackLog s"
    and "nextSet (emit_announced k s) = nextSet s"
    and "timers (emit_announced k s) = timers s"
    and "nextTimer (emit_announced k s) = nextTimer s"
  by (simp_all add: emit_announced_def split: option.splits)

lemma emit_focusMoved_fields [simp]:
  shows "now (emit_focusMoved k s) = now s"
    and "env (emit_focusMoved k s) = env s"
    and "activeElement (emit_focusMoved k s) = activeElement s"
    and "config (emit_focusMoved k s) = config s"
    and "configListeners (emit_focusMoved k s) = configListeners s"
    and "politeRegion (emit_focusMoved k s) = politeRegion s"
    and "assertiveRegion (emit_focusMoved k s) = assertiveRegion s"
    and "initialized (emit_focusMoved k s) = initialized s"
    and "announcer (emit_focusMoved k s) = announcer s"
    and "politeTimeoutId (emit_focusMoved k s) = politeTimeoutId s"
    and "assertiveTimeoutId (emit_focusMoved k s) = assertiveTimeoutId s"
    and "recentMessages (emit_focusMoved k s) = recentMessages s"
    and "activeEvents (emit_focusMoved k s) = activeEvents s"
    and "container (emit_focusMoved k s) = container s"
    and "styleElement (emit_focusMoved k s) = styleElement s"
    and "visualItems (emit_focusMoved k s) = visualItems s"
    and "dismissTimers (emit_focusMoved k s) = dismissTimers s"
    and "feedbackLog (emit_focusMoved k s) = feedbackLog s"
    and "nextSet (emit_focusMoved k s) = nextSet s"
    and "timers (emit_focusMoved k s) = timers s"
    and "nextTimer (emit_focusMoved k s) = nextTimer s"
  by (simp_all add: emit_focusMoved_def)

lemma emit_visualShown_fields [simp]:
  shows "now (emit_visualShown k l s) = now s"
    and "env (emit_visualShown k l s) = env s"
    and "activeElement (emit_visualShown k l s) = activeElement s"
    and "config (emit_visualShown k l s) = config s"
    and "configListeners (emit_visualShown k l s) = configListeners s"
    and "politeRegion (emit_visualShown k l s) = politeRegion s"
    and "assertiveRegion (emit_visualShown k l s) = assertiveRegion s"
    and "initialized (emit_visualShown k l s) = initialized s"
    and "announcer (emit_visualShown k l s) = announcer s"
    and "politeTimeoutId (emit_visualShown k l s) = politeTimeoutId s"
    and "assertiveTimeoutId (emit_visualShown k l s) = assertiveTimeoutId s"
    and "recentMessages (emit_visualShown k l s) = recentMessages s"
    and "activeEvents (emit_visualShown k l s) = activeEvents s"
    and "container (emit_visualShown k l s) = container s"
    and "styleElement (emit_visualShown k l s) = styleElement s"
    and "visualItems (emit_visualShown k l s) = visualItems s"
    and "dismissTimers (emit_visualShown k l s) = dismissTimers s"
    and "feedbackLog (emit_visualShown k l s) = feedbackLog s"
    and "nextSet (emit_visualShown k l s) = nextSet s"
    and "timers (emit_visualShown k l s) = timers s"
    and "nextTimer (emit_visualShown k l s) = nextTimer s"
  by (simp_all add: emit_visualShown_def)

lemma publish_fields [simp]:
  shows "now (publish k l s) = now s"
    and "env (publish k l s) = env s"
    and "activeElement (publish k l s) = activeElement s"
    and "config (publish k l s) = config s"
    and "configListeners (publish k l s) = configListeners s"
    and "politeRegion (publish k l s) = politeRegion s"
    and "assertiveRegion (publish k l s) = assertiveRegion s"
    and "initialized (publish k l s) = initialized s"
    and "announcer (publish k l s) = announcer s"
    and "politeTimeoutId (publish k l s) = politeTimeoutId s"
    and "assertiveTimeoutId (publish k l s) = assertiveTimeoutId s"
    and "recentMessages (publish k l s) = recentMessages s"
    and "activeEvents (publish k l s) = activeEvents s"
    and "container (publish k l s) = container s"
    and "styleElement (publish k l s) = styleElement s"
    and "visualItems (publish k l s) = visualItems s"
    and "dismissTimers (publish k l s) = dismissTimers s"
    and "nextSet (publish k l s) = nextSet s"
    and "timers (publish k l s) = timers s"
    and "nextTimer (publish k l s) = nextTimer s"
  by (simp_all add: publish_def)

lemma ht_skipped_fields [simp]:
  shows "now (ht_skipped e s) = now s"
    and "env (ht_skipped e s) = env s"
    and "activeElement (ht_skipped e s) = activeElement s"
    and "config (ht_skipped e s) = config s"
    and "configListeners (ht_skipped e s) = configListeners s"
    and "politeRegion (ht_skipped e s) = politeRegion s"
    and "assertiveRegion (ht_skipped e s) = assertiveRegion s"
    and "initialized (ht_skipped e s) = initialized s"
    and "announcer (ht_skipped e s) = announcer s"
    and "politeTimeoutId (ht_skipped e s) = politeTimeoutId s"
    and "assertiveTimeoutId (ht_skipped e s) = assertiveTimeoutId s"
    and "recentMessages (ht_skipped e s) = recentMessages s"
    and "activeEvents (ht_skipped e s) = activeEvents s"
    and "container (ht_skipped e s) = container s"
    and "styleElement (ht_skipped e s) = styleElement s"
    and "visualItems (ht_skipped e s) = visualItems s"
    and "dismissTimers (ht_skipped e s) = dismissTimers s"
    and "nextSet (ht_skipped e s) = nextSet s"
    and "timers (ht_skipped e s) = timers s"
    and "nextTimer (ht_skipped e s) = nextTimer s"
  by (simp_all add: ht_skipped_def Let_def)

lemma ht_announce_fields [simp]:
  shows "now (ht_announce e t s) = now s"
    and "env (ht_announce e t s) = env s"
    and "config (ht_announce e t s) = config s"
    and "configListeners (ht_announce e t s) = configListeners s"
    and "container (ht_announce e t s) = container s"
    and "styleElement (ht_announce e t s) = styleElement s"
    and "visualItems (ht_announce e t s) = visualItems s"
    and "dismissTimers (ht_announce e t s) = dismissTimers s"
    and "feedbackLog (ht_announce e t s) = feedbackLog s"
    and "listeners (ht_announce e t s) = listeners s"
    and "nextSet (ht_announce e t s) = nextSet s"
  by (simp_all add: ht_announce_def Let_def split_def)

lemma ht_fields [simp]:
  shows "now (ht e s) = now s"
    and "env (ht e s) = env s"
    and "config (ht e s) = config s"
    and "configListeners (ht e s) = configListeners s"
    and "container (ht e s) = container s"
    and "styleElement (ht e s) = styleElement s"
    and "visualItems (ht e s) = visualItems s"
    and "dismissTimers (ht e s) = dismissTimers s"
    and "nextSet (ht e s) = nextSet s"
  by (simp_all add: ht_def Let_def split_def)

lemma S_notify_fields [simp]:
  shows "now (S_notify m ty opts g s) = now s"
    and "env (S_notify m ty opts g s) = env s"
    and "config (S_notify m ty opts g s) = config s"
    and "configListeners (S_notify m ty opts g s) = configListeners s"
    and "container (S_notify m ty opts g s) = container s"
    and "styleElement (S_notify m ty opts g s) = styleElement s"
    and "visualItems (S_notify m ty opts g s) = visualItems s"
    and "dismissTimers (S_notify m ty opts g s) = dismissTimers s"
    and "nextSet (S_notify m ty opts g s) = nextSet s"
  by (simp_all add: S_notify_def)

lemma pe_fields [simp]:
  shows "now (pe e t s) = now s"
    and "env (pe e t s) = env s"
    and "activeElement (pe e t s) = activeElement s"
    and "config (pe e t s) = config s"
    and "configListeners (pe e t s) = configListeners s"
    and "politeRegion (pe e t s) = politeRegion s"
    and "assertiveRegion (pe e t s) = assertiveRegion s"
    and "initialized (pe e t s) = initialized s"
    and "announcer (pe e t s) = announcer s"
    and "politeTimeoutId (pe e t s) = politeTimeoutId s"
    and "assertiveTimeoutId (pe e t s) = assertiveTimeoutId s"
    and "recentMessages (pe e t s) = recentMessages s"
    and "activeEvents (pe e t s) = activeEvents s"
    and "container (pe e t s) = container s"
    and "styleElement (pe e t s) = styleElement s"
    and "visualItems (pe e t s) = visualItems s"
    and "dismissTimers (pe e t s) = dismissTimers s"
    and "feedbackLog (pe e t s) = feedbackLog s"
    and "timers (pe e t s) = timers s"
    and "nextTimer (pe e t s) = nextTimer s"
    and "trace (pe e t s) = trace s"
  by (simp_all add: pe_def Let_def split: option.splits)

lemma gt_fields [simp]:
  shows "now (gt e s) = now s"
    and "env (gt e s) = env s"
    and "activeElement (gt e s) = activeElement s"
    and "config (gt e s) = config s"
    and "configListeners (gt e s) = configListeners s"
    and "politeRegion (gt e s) = politeRegion s"
    and "assertiveRegion (gt e s) = assertiveRegion s"
    and "initialized (gt e s) = initialized s"
    and "announcer (gt e s) = announcer s"
    and "politeTimeoutId (gt e s) = politeTimeoutId s"
    and "assertiveTimeoutId (gt e s) = assertiveTimeoutId s"
    and "recentMessages (gt e s) = recentMessages s"
    and "activeEvents (gt e s) = activeEvents s"
    and "container (gt e s) = container s"
    and "styleElement (gt e s) = styleElement s"
    and "visualItems (gt e s) = visualItems s"
    and "dismissTimers (gt e s) = dismissTimers s"
    and "feedbackLog (gt e s) = feedbackLog s"
    and "timers (gt e s) = timers s"
    and "nextTimer (gt e s) = nextTimer s"
    and "trace (gt e s) = trace s"
  by (simp_all add: gt_def)

lemma pt_fields [simp]:
  shows "now (pt e s) = now s"
    and "env (pt e s) = env s"
    and "activeElement (pt e s) = activeElement s"
    and "config (pt e s) = config s"
    and "configListeners (pt e s) = configListeners s"
    and "politeRegion (pt e s) = politeRegion s"
    and "assertiveRegion (pt e s) = assertiveRegion s"
    and "initialized (pt e s) = initialized s"
    and "announcer (pt e s) = announcer s"
    and "politeTimeoutId (pt e s) = politeTimeoutId s"
    and "assertiveTimeoutId (pt e s) = assertiveTimeoutId s"
    and "recentMessages (pt e s) = recentMessages s"
    and "activeEvents (pt e s) = activeEvents s"
    and "container (pt e s) = container s"
    and "styleElement (pt e s) = styleElement s"
    and "visualItems (pt e s) = visualItems s"
    and "dismissTimers (pt e s) = dismissTimers s"
    and "feedbackLog (pt e s) = feedbackLog s"
    and "nextSet (pt e s) = nextSet s"
    and "timers (pt e s) = timers s"
    and "nextTimer (pt e s) = nextTimer s"
    and "trace (pt e s) = trace s"
  by (simp_all add: pt_def split: option.splits)

lemma unsubscribe_fields [simp]:
  shows "now (unsubscribe g i s) = now s"
    and "env (unsubscribe g i s) = env s"
    and "activeElement (unsubscribe g i s) = activeElement s"
    and "config (unsubscribe g i s) = config s"
    and "configListeners (unsubscribe g i s) = configListeners s"
    and "politeRegion (unsubscribe g i s) = politeRegion s"
    and "assertiveRegion (unsubscribe g i s) = assertiveRegion s"
    and "initialized (unsubscribe g i s) = initialized s"
    and "announcer (unsubscribe g i s) = announcer s"
    and "politeTimeoutId (unsubscribe g i s) = politeTimeoutId s"
    and "assertiveTimeoutId (unsubscribe g i s) = assertiveTimeoutId s"
    and "recentMessages (unsubscribe g i s) = recentMessages s"
    and "activeEvents (unsubscribe g i s) = activeEvents s"
    and "container (unsubscribe g i s) = container s"
    and "styleElement (unsubscribe g i s) = styleElement s"
    and "visualItems (unsubscribe g i s) = visualItems s"
    and "dismissTimers (unsubscribe g i s) = dismissTimers s"
    and "feedbackLog (unsubscribe g i s) = feedbackLog s"
    and "nextSet (unsubscribe g i s) = nextSet s"
    and "timers (unsubscribe g i s) = timers s"
    and "nextTimer (unsubscribe g i s) = nextTimer s"
    and "trace (unsubscribe g i s) = trace s"
  by (simp_all add: unsubscribe_def)

lemmas de_fields [simp] = ui_only_fields [OF ui_only_de]
lemmas ue_fields [simp] = ui_only_fields [OF ui_only_ue]
lemmas le_fields [simp] = ui_only_fields [OF ui_only_le]
lemmas me_fields [simp] = ui_only_fields [OF ui_only_me]
lemmas dismiss_fields [simp] = ui_only_fields [OF ui_only_dismiss]
lemmas be_fields [simp] = ui_only_fields [OF ui_only_be]
lemmas nt_fields [simp] = ui_only_fields [OF ui_only_nt]
lemmas J_fields [simp] = ui_only_fields [OF ui_only_J]

subsection \<open>What each function lets observe\<close>

lemma trace_observe [simp]: "trace (observe xs s) = trace s @ xs"
  by (simp add: observe_def)

lemma trace_ge [simp]: "trace (ge e t a b c s) = trace s @ [Logged t e]"
  by (simp add: ge_def Let_def)

lemma filter_callbacks:
  assumes "\<And>i k p. \<not> P (Delivered i k p)" and "\<And>i k. \<not> P (ConsoleError i k)"
  shows "filter P (concat (map (callback_obs e t) rs)) = []"
  using assms by (induction rs) (simp_all add: callback_obs_def)

lemma filter_trace_x_emit:
  assumes "e \<noteq> EvAny" and "\<And>i k p. \<not> P (Delivered i k p)" and "\<And>i k. \<not> P (ConsoleError i k)"
  shows "filter P (trace (x_emit e t s)) = filter P (trace s) @ filter P [Emitted e t]"
  using filter_callbacks [of P e t, OF assms(2,3)]
  by (simp add: trace_x_emit [OF assms(1)])

lemma str_simps: "str [] = []" "str (c # cs) = of_char c # str cs"
  by (simp_all add: str_def)

lemmas eval_defs = S_notify_def ht_def ht_skipped_def ht_announce_def kt_def init_def browser_def no_options_def
  q_initializeRegions_def Ve_def content_check_def Be_def Pe_def Oe_def Ue_def qe_def Ge_def
  Ie_def X_write_def Re_def setTimeout_def ie_def ANNOUNCEMENT_DEBOUNCE_MS_def
  DEDUPE_WINDOW_MS_def split_def REGION_CLEAR_DELAY_MS_def timer_delay_def str_def ne_def
  DEFAULT_CONFIG_def

subsection \<open>Focus\<close>

lemma qe_blocked:
  assumes "ev_type e \<in> {Success, Info, Loading}"
    and "opt_focus (ev_options e) = Some sel" and "sel \<noteq> []"
  shows "qe e s =
           (\<lparr>moved = False, target = Some sel, elementName = None,
             blockedReason = Some (str ''Focus movement blocked: '' @ type_name (ev_type e)
                                   @ str '' type cannot move focus'')\<rparr>, s)"
  using assms by (auto simp add: qe_def je_def Let_def)

lemma ht_focus_blocked:
  assumes "ev_type e \<in> {Success, Info, Loading}"
    and "opt_focus (ev_options e) = Some sel" and "sel \<noteq> []"
  shows "activeElement (ht e s) = activeElement s"
    and "filter focus_obs (trace (ht e s)) = filter focus_obs (trace s)"
proof -
  have q: "\<And>b s'. qe (e\<lparr>ev_replaced := b\<rparr>) s' =
             (\<lparr>moved = False, target = Some sel, elementName = None,
               blockedReason = Some (str ''Focus movement blocked: '' @ type_name (ev_type e)
                                     @ str '' type cannot move focus'')\<rparr>, s')"
    using qe_blocked [of "e\<lparr>ev_replaced := b\<rparr>" sel for b] assms by simp
  show "activeElement (ht e s) = activeElement s"
    by (simp add: ht_def ht_skipped_def ht_announce_def Let_def split_def q)
  show "filter focus_obs (trace (ht e s)) = filter focus_obs (trace s)"
    by (simp add: ht_def ht_skipped_def ht_announce_def Let_def split_def q filter_trace_x_emit)
qed

subsection \<open>Auto-dismiss\<close>



subsection \<open>The end of the pipeline\<close>

lemma show_visual_off: "\<not> visual (config s) \<Longrightarrow> show_visual k s = Some (False, s)"
  by (simp add: show_visual_def)

lemma ht_resume_off: "\<not> visual (config s) \<Longrightarrow> ht_resume k s = Some (publish k False s)"
  by (simp add: ht_resume_def show_visual_off)

lemma last_publish_off: "last (trace (publish k False s)) = Resolved (p_event k)"
  by (simp add: publish_def emit_visualShown_def)

subsection \<open>The scheduler, field by field\<close>

lemma filter_not_None [simp]: "filter (\<lambda>t. Some (fst t) \<noteq> None) xs = xs"
  by simp

lemma Ie_timers:
  "timers (Ie k s) =
     (if debounced (ev_ariaLive (p_announced k)) s
      then filter (\<lambda>t. Some (fst t) \<noteq> timeout_id (ev_ariaLive (p_announced k)) s) (timers s) @
             [(nextTimer s, now s + ANNOUNCEMENT_DEBOUNCE_MS,
               TDebounce (ev_ariaLive (p_announced k)) (dom_text (p_announced k) s) k)]
      else timers s @
             [(nextTimer s, now s + REGION_CLEAR_DELAY_MS,
               TClearDelay (ev_ariaLive (p_announced k)) (dom_text (p_announced k) s) k)])"
  by (cases "ev_ariaLive (p_announced k)"; cases "politeTimeoutId s"; cases "assertiveTimeoutId s")
     (simp_all add: Ie_def Re_def X_write_def setTimeout_def clearTimeout_def Ne_def Let_def split_def
      debounced_def last_timestamp_def timeout_id_def dom_text_def is_forced_def last_message_def
      timer_delay_def ANNOUNCEMENT_DEBOUNCE_MS_def REGION_CLEAR_DELAY_MS_def)

lemma Ie_nextTimer: "nextTimer (Ie k s) = Suc (nextTimer s)"
  by (simp add: Ie_def Re_def X_write_def setTimeout_def clearTimeout_def Ne_def Let_def split_def
      split: option.splits)

lemma Ie_timeout_id:
  "timeout_id n (Ie k s) =
     (if debounced (ev_ariaLive (p_announced k)) s \<and> n = ev_ariaLive (p_announced k)
      then Some (nextTimer s) else timeout_id n s)"
  by (cases "ev_ariaLive (p_announced k)"; cases n)
     (simp_all add: Ie_def Re_def X_write_def setTimeout_def clearTimeout_def Ne_def Let_def split_def
      debounced_def last_timestamp_def timeout_id_def split: option.splits)

lemma Ie_announcer:
  "announcer (Ie k s) =
     (if is_forced (p_announced k) s
      then (announcer s)\<lparr>zwcCounter := Suc (zwcCounter (announcer s))\<rparr> else announcer s)"
  by (simp add: Ie_def Re_def X_write_def setTimeout_def clearTimeout_def Ne_def Let_def split_def
      is_forced_def last_message_def split: option.splits)

lemma Ie_regions:
  "politeRegion (Ie k s) = politeRegion (q_initializeRegions s)"
  "assertiveRegion (Ie k s) = assertiveRegion (q_initializeRegions s)"
  "initialized (Ie k s) = initialized (q_initializeRegions s)"
  by (simp_all add: Ie_def Re_def X_write_def setTimeout_def clearTimeout_def Ne_def Let_def split_def
      split: option.splits)

lemma run_debounce:
  "run_timer (TDebounce n l k) s =
     Some (s\<lparr>timers := timers s @ [(nextTimer s, now s + REGION_CLEAR_DELAY_MS, TClearDelay n l k)],
            nextTimer := Suc (nextTimer s),
            politeTimeoutId := (if n = Assertive then politeTimeoutId s else None),
            assertiveTimeoutId := (if n = Assertive then None else assertiveTimeoutId s)\<rparr>)"
  by (cases n) (simp_all add: run_timer_def X_write_def setTimeout_def timer_delay_def REGION_CLEAR_DELAY_MS_def)

subsection \<open>The notify call, branch by branch\<close>

lemma Ve_fst_cong:
  assumes "activeEvents s' = activeEvents s" and "recentMessages s' = recentMessages s"
    and "now s' = now s"
  shows "fst (Ve e s') = fst (Ve e s)"
  using assms by (simp add: Ve_def content_check_def Be_def split: option.splits)

lemma qe_fst_cong:
  assumes "env s' = env s" and "activeElement s' = activeElement s"
  shows "fst (qe e s') = fst (qe e s)"
  using assms by (simp add: qe_def Xe_def Let_def observe_def split: option.splits)

lemma Ge_cong: "env s' = env s \<Longrightarrow> Ge m e r s' = Ge m e r s"
  by (simp add: Ge_def Ye_def split: option.splits)

lemma F_hasListeners_cong:
  "listeners s' = listeners s \<Longrightarrow> F_hasListeners e s' = F_hasListeners e s"
  by (simp add: F_hasListeners_def set_size_def)

lemma ht_announce_eq:
  "ht_announce e (fst (Ve e s)) s1 =
     Ie \<lparr>p_announced = (flagged e s)\<lparr>ev_message := Ge (ev_message e) (flagged e s)
                             (fst (qe (flagged e s) s1)) s1\<rparr>,
         p_event = flagged e s, p_replaced = replacedEvent (fst (Ve e s)),
         p_focus = fst (qe (flagged e s) s1)\<rparr>
       (snd (qe (flagged e s) (Oe (ev_message e) (ev_type e) (Pe (flagged e s) s1))))"
proof -
  let ?ev = "flagged e s"
  let ?s3 = "Oe (ev_message e) (ev_type e) (Pe ?ev s1)"
  have m: "ev_message ?ev = ev_message e" "ev_type ?ev = ev_type e"
    by (simp_all add: flagged_def)
  have f: "fst (qe ?ev ?s3) = fst (qe ?ev s1)"
    by (rule qe_fst_cong) simp_all
  have g: "\<And>r. Ge (ev_message e) ?ev r (snd (qe ?ev ?s3)) = Ge (ev_message e) ?ev r s1"
    by (rule Ge_cong) simp
  show ?thesis
    unfolding ht_announce_def Let_def split_def flagged_def [symmetric]
    by (simp only: m f g)
qed

lemma Ve_q:
  shows "fst (Ve e (q_initializeRegions s)) = fst (Ve e s)"
  by (rule Ve_fst_cong) simp_all

lemma Ve_skip_state: "shouldSkip (fst (Ve e s)) \<Longrightarrow> snd (Ve e s) = s"
  by (simp add: Ve_def content_check_def split: option.splits if_splits)

lemma ht_eq:
  "ht e s =
     (if shouldSkip (fst (Ve e s)) then ht_skipped e (q_initializeRegions s)
      else Ie (pending_of e s) (registered e s))"
proof (cases "shouldSkip (fst (Ve e s))")
  case True
  then have "snd (Ve e (q_initializeRegions s)) = q_initializeRegions s"
    using Ve_skip_state [of e "q_initializeRegions s"] by (simp add: Ve_q)
  then show ?thesis using True
    unfolding ht_def Let_def split_def Ve_q by simp
next
  case False
  let ?s1 = "snd (Ve e (q_initializeRegions s))"
  have f: "fst (qe (flagged e s) ?s1) = fst (qe (flagged e s) s)"
    by (rule qe_fst_cong) simp_all
  have g: "\<And>r. Ge (ev_message e) (flagged e s) r ?s1 = Ge (ev_message e) (flagged e s) r s"
    by (rule Ge_cong) simp
  have "ht e s = ht_announce e (fst (Ve e s)) ?s1"
    using False unfolding ht_def Let_def split_def Ve_q by simp
  also have "\<dots> = Ie (pending_of e s) (registered e s)"
    unfolding ht_announce_eq pending_of_def registered_def f g ..
  finally show ?thesis using False by simp
qed

lemma registered_fields [simp]:
  shows "now (registered e s) = now s"
    and "env (registered e s) = env s"
    and "config (registered e s) = config s"
    and "configListeners (registered e s) = configListeners s"
    and "politeRegion (registered e s) = politeRegion (q_initializeRegions s)"
    and "assertiveRegion (registered e s) = assertiveRegion (q_initializeRegions s)"
    and "initialized (registered e s) = initialized (q_initializeRegions s)"
    and "announcer (registered e s) = announcer s"
    and "politeTimeoutId (registered e s) = politeTimeoutId s"
    and "assertiveTimeoutId (registered e s) = assertiveTimeoutId s"
    and "container (registered e s) = container s"
    and "styleElement (registered e s) = styleElement s"
    and "visualItems (registered e s) = visualItems s"
    and "dismissTimers (registered e s) = dismissTimers s"
    and "feedbackLog (registered e s) = feedbackLog s"
    and "listeners (registered e s) = listeners s"
    and "nextSet (registered e s) = nextSet s"
    and "timers (registered e s) = timers s"
    and "nextTimer (registered e s) = nextTimer s"
  by (simp_all add: registered_def)

lemma spec_fields_cong:
  assumes "announcer s' = announcer s"
  shows "last_timestamp n s' = last_timestamp n s"
    and "last_message n s' = last_message n s"
    and "is_forced e s' = is_forced e s"
    and "dom_text e s' = dom_text e s"
  using assms by (simp_all add: last_timestamp_def last_message_def is_forced_def dom_text_def)

lemma debounced_cong:
  "announcer s' = announcer s \<Longrightarrow> now s' = now s \<Longrightarrow> debounced n s' = debounced n s"
  by (simp add: debounced_def last_timestamp_def)

lemma timeout_id_cong:
  "politeTimeoutId s' = politeTimeoutId s \<Longrightarrow> assertiveTimeoutId s' = assertiveTimeoutId s \<Longrightarrow>
   timeout_id n s' = timeout_id n s"
  by (simp add: timeout_id_def)

lemma registered_spec [simp]:
  shows "last_timestamp n (registered e s) = last_timestamp n s"
    and "last_message n (registered e s) = last_message n s"
    and "is_forced e' (registered e s) = is_forced e' s"
    and "dom_text e' (registered e s) = dom_text e' s"
    and "debounced n (registered e s) = debounced n s"
    and "timeout_id n (registered e s) = timeout_id n s"
  by (simp_all add: last_timestamp_def last_message_def is_forced_def dom_text_def
      debounced_def timeout_id_def)

subsection \<open>Timers and writes\<close>

lemma earliest_single [simp]: "earliest [t] = Some t"
  by simp

lemma fire_eval:
  assumes "earliest (timers s) = Some t"
  shows "fire s = run_timer (snd (snd t))
                    (s\<lparr>timers := filter (\<lambda>u. fst u \<noteq> fst t) (timers s),
                       now := max (now s) (fst (snd t))\<rparr>)"
  using assms by (simp add: fire_def)

lemma run_clear_delay_off:
  assumes "\<not> visual (config s)"
  shows "run_timer (TClearDelay n l k) s = Some (publish k False (Ie_resume k (De n l s)))"
  using assms by (simp add: run_timer_def ht_resume_off)

lemma q_ready: "hasDOM (env s) \<Longrightarrow> regions_ready (q_initializeRegions s)"
  by (simp add: regions_ready_def q_initializeRegions_def Let_def)

lemma q_idem: "regions_ready s \<Longrightarrow> q_initializeRegions s = s"
  by (simp add: regions_ready_def q_initializeRegions_def Let_def)

lemma regions_ready_cong:
  "initialized s' = initialized s \<Longrightarrow> politeRegion s' = politeRegion s \<Longrightarrow>
   assertiveRegion s' = assertiveRegion s \<Longrightarrow> regions_ready s' = regions_ready s"
  by (simp add: regions_ready_def)

lemma De_trace:
  "regions_ready s \<Longrightarrow> trace (De e t s) = trace s @ [DomClear e, DomWrite e t]"
  by (auto simp add: regions_ready_def De_def xe_def Let_def assign_text_def)

lemma De_ready: "regions_ready s \<Longrightarrow> regions_ready (De e t s)"
  by (auto simp add: regions_ready_def De_def xe_def Let_def assign_text_def observe_def)

lemma Ie_resume_announcer:
  "announcer (Ie_resume k s) =
     (if ev_ariaLive (p_announced k) = Assertive
      then (announcer s)\<lparr>lastAssertiveMessage := Some (ev_message (p_announced k)),
                         lastAssertiveTimestamp := now s\<rparr>
      else (announcer s)\<lparr>lastPoliteMessage := Some (ev_message (p_announced k)),
                         lastPoliteTimestamp := now s\<rparr>)"
  by (simp add: Ie_resume_def Let_def)

lemma event_A_facts:
  shows "\<not> shouldSkip (fst (Ve event_A (init browser 1000)))"
    and "p_announced (pending_of event_A (init browser 1000)) = event_A"
    and "ev_ariaLive event_A = Polite"
    and "ev_message event_A = str ''A''"
    and "opt_force (ev_options event_A) = None"
proof -
  show 1: "\<not> shouldSkip (fst (Ve event_A (init browser 1000)))"
    by (simp add: Ve_def content_check_def Be_def event_A_def kt_def no_options_def init_def Let_def)
  have 2: "replacedEvent (fst (Ve event_A (init browser 1000))) = None"
    by (simp add: Ve_def content_check_def Be_def event_A_def kt_def no_options_def init_def Let_def)
  have 3: "flagged event_A (init browser 1000) = event_A"
    unfolding flagged_def 2 by (simp add: event_A_def kt_def Let_def)
  have 4: "fst (qe event_A (init browser 1000)) =
      \<lparr>moved = False, target = None, elementName = None, blockedReason = None\<rparr>"
    by (simp add: qe_def event_A_def kt_def no_options_def Let_def)
  show "p_announced (pending_of event_A (init browser 1000)) = event_A"
    unfolding pending_of_def 3 4 by (simp add: Ge_def)
  show "ev_ariaLive event_A = Polite" "ev_message event_A = str ''A''"
    "opt_force (ev_options event_A) = None"
    by (simp_all add: event_A_def kt_def no_options_def Let_def)
qed

lemma call_A_eq:
  "call_A = Ie (pending_of event_A (init browser 1000)) (registered event_A (init browser 1000))"
  using event_A_facts(1)
  by (simp add: call_A_def S_notify_def ht_eq event_A_def [symmetric] init_def)

subsection \<open>Events, frames and the concrete run\<close>

lemma kt_simps [simp]:
  shows "ev_message (kt m ty opts g t) = m"
    and "ev_type (kt m ty opts g t) = ty"
    and "ev_options (kt m ty opts g t) = opts"
    and "ev_ariaLive (kt m ty opts g t) = ariaLive (FEEDBACK_SEMANTICS ty)"
    and "ev_role (kt m ty opts g t) = role (FEEDBACK_SEMANTICS ty)"
    and "ev_priority (kt m ty opts g t) = priority (FEEDBACK_SEMANTICS ty)"
    and "ev_id (kt m ty opts g t) = (case opt_id opts of Some i \<Rightarrow> i | None \<Rightarrow> g)"
    and "ev_timestamp (kt m ty opts g t) = t"
    and "ev_replaced (kt m ty opts g t) = False"
    and "ev_deduped (kt m ty opts g t) = False"
  by (simp_all add: kt_def Let_def)

lemma flagged_simps [simp]:
  shows "ev_message (flagged e s) = ev_message e"
    and "ev_type (flagged e s) = ev_type e"
    and "ev_options (flagged e s) = ev_options e"
    and "ev_ariaLive (flagged e s) = ev_ariaLive e"
    and "ev_role (flagged e s) = ev_role e"
    and "ev_priority (flagged e s) = ev_priority e"
    and "ev_id (flagged e s) = ev_id e"
    and "ev_timestamp (flagged e s) = ev_timestamp e"
    and "ev_deduped (flagged e s) = ev_deduped e"
    and "ev_replaced (flagged e s) = (replacedEvent (fst (Ve e s)) \<noteq> None)"
  by (simp_all add: flagged_def)

lemma pending_of_simps [simp]:
  shows "p_event (pending_of e s) = flagged e s"
    and "p_replaced (pending_of e s) = replacedEvent (fst (Ve e s))"
    and "p_focus (pending_of e s) = fst (qe (flagged e s) s)"
    and "ev_type (p_announced (pending_of e s)) = ev_type e"
    and "ev_options (p_announced (pending_of e s)) = ev_options e"
    and "ev_ariaLive (p_announced (pending_of e s)) = ev_ariaLive e"
    and "ev_id (p_announced (pending_of e s)) = ev_id e"
    and "ev_message (p_announced (pending_of e s)) =
           Ge (ev_message e) (flagged e s) (fst (qe (flagged e s) s)) s"
  by (simp_all add: pending_of_def)

lemma qe_no_focus:
  "opt_focus (ev_options e) = None \<Longrightarrow>
   qe e s = (\<lparr>moved = False, target = None, elementName = None, blockedReason = None\<rparr>, s)"
  by (simp add: qe_def Let_def)

lemma Ge_not_moved: "\<not> moved r \<Longrightarrow> Ge m e r s = m"
  by (simp add: Ge_def)

lemma announced_message_plain:
  "opt_focus (ev_options e) = None \<Longrightarrow> ev_message (p_announced (pending_of e s)) = ev_message e"
  by (simp add: qe_no_focus Ge_not_moved)

lemma recentMessages_registered:
  "recentMessages (registered e s) k =
     (if k = ie (ev_message e) (ev_type e) then Some (now s)
      else (case recentMessages s k of
              None \<Rightarrow> None
            | Some ts \<Rightarrow> if ts < now s - DEDUPE_WINDOW_MS * 2 then None else Some ts))"
  by (simp add: registered_def Oe_def Ue_def Let_def DEDUPE_WINDOW_MS_def split: option.splits)

lemma activeEvents_Ve:
  "activeEvents (snd (Ve e s)) =
     (case opt_id (ev_options e) of
        None \<Rightarrow> activeEvents s
      | Some i \<Rightarrow> if i \<noteq> [] then (activeEvents s)(i := None) else activeEvents s)"
  by (auto simp add: Ve_def content_check_def ae_def split: option.splits)

lemma activeEvents_registered:
  "activeEvents (registered e s) =
     (case opt_id (ev_options e) of
        None \<Rightarrow> activeEvents s
      | Some i \<Rightarrow> if i \<noteq> [] then (activeEvents s)(i := None) else activeEvents s)
     (ev_id e \<mapsto> flagged e s)"
  by (simp add: registered_def Pe_def activeEvents_Ve split: option.splits)

lemma Ie_ids:
  shows "politeTimeoutId (Ie k s) =
           (if debounced (ev_ariaLive (p_announced k)) s \<and> ev_ariaLive (p_announced k) = Polite
            then Some (nextTimer s) else politeTimeoutId s)"
    and "assertiveTimeoutId (Ie k s) =
           (if debounced (ev_ariaLive (p_announced k)) s \<and> ev_ariaLive (p_announced k) = Assertive
            then Some (nextTimer s) else assertiveTimeoutId s)"
  using Ie_timeout_id [of Polite k s] Ie_timeout_id [of Assertive k s]
  by (auto simp add: timeout_id_def)

lemma init_fields [simp]:
  shows "now (init h t) = t"
    and "env (init h t) = h"
    and "activeElement (init h t) = None"
    and "config (init h t) = DEFAULT_CONFIG"
    and "configListeners (init h t) = 0"
    and "politeRegion (init h t) = None"
    and "assertiveRegion (init h t) = None"
    and "initialized (init h t) = False"
    and "announcer (init h t) =
           \<lparr>lastPoliteMessage = None, lastAssertiveMessage = None,
            lastPoliteTimestamp = 0, lastAssertiveTimestamp = 0, zwcCounter = 0\<rparr>"
    and "politeTimeoutId (init h t) = None"
    and "assertiveTimeoutId (init h t) = None"
    and "recentMessages (init h t) = Map.empty"
    and "activeEvents (init h t) = Map.empty"
    and "container (init h t) = False"
    and "styleElement (init h t) = False"
    and "visualItems (init h t) = []"
    and "dismissTimers (init h t) = []"
    and "feedbackLog (init h t) = []"
    and "listeners (init h t) = Map.empty"
    and "nextSet (init h t) = 0"
    and "timers (init h t) = []"
    and "nextTimer (init h t) = 1"
    and "trace (init h t) = []"
  by (simp_all add: init_def)

lemma call_A_facts:
  shows "timers call_A =
           [(1, 1050, TClearDelay Polite (str ''A'') (pending_of event_A (init browser 1000)))]"
    and "\<not> visual (config call_A)"
    and "now call_A = 1000"
    and "fire call_A =
           Some (publish (pending_of event_A (init browser 1000)) False
             (Ie_resume (pending_of event_A (init browser 1000))
               (De Polite (str ''A'') (call_A\<lparr>timers := [], now := 1050\<rparr>))))"
proof -
  let ?k = "pending_of event_A (init browser 1000)"
  show t: "timers call_A = [(1, 1050, TClearDelay Polite (str ''A'') ?k)]"
    unfolding call_A_eq
    by (simp add: Ie_timers event_A_facts dom_text_def is_forced_def last_message_def)
       (simp add: debounced_def last_timestamp_def ANNOUNCEMENT_DEBOUNCE_MS_def
         REGION_CLEAR_DELAY_MS_def)
  show c: "\<not> visual (config call_A)" "now call_A = 1000"
    by (simp_all add: call_A_def DEFAULT_CONFIG_def)
  show "fire call_A =
      Some (publish ?k False (Ie_resume ?k (De Polite (str ''A'') (call_A\<lparr>timers := [], now := 1050\<rparr>))))"
    using fire_eval [of call_A "(1, 1050, TClearDelay Polite (str ''A'') ?k)"] t c
    by (simp add: run_clear_delay_off)
qed

lemma spaced_state_facts:
  shows "exec [Notify (str ''A'') Success no_options (str ''g1''), Fire, Advance 1080]
           (init browser 1000) = Some spaced_state"
    and "now spaced_state = 1080"
    and "last_timestamp Polite spaced_state = 1050"
    and "last_message Polite spaced_state = Some (str ''A'')"
    and "recentMessages spaced_state (ie (str ''B'') Info) = None"
    and "debounced Polite spaced_state"
    and "timeout_id Polite spaced_state = None"
    and "timers spaced_state = []"
    and "nextTimer spaced_state = 2"
    and "zwcCounter (announcer spaced_state) = 0"
proof -
  show "exec [Notify (str ''A'') Success no_options (str ''g1''), Fire, Advance 1080]
     (init browser 1000) = Some spaced_state"
    using call_A_facts(4) by (simp add: step_def call_A_def [symmetric] spaced_state_def)
  show 2: "now spaced_state = 1080"
    by (simp add: spaced_state_def)
  show 3: "last_timestamp Polite spaced_state = 1050"
    by (simp add: spaced_state_def last_timestamp_def Ie_resume_announcer event_A_facts)
  show "last_message Polite spaced_state = Some (str ''A'')"
    by (simp add: spaced_state_def last_message_def Ie_resume_announcer event_A_facts)
  show "recentMessages spaced_state (ie (str ''B'') Info) = None"
    by (simp add: spaced_state_def call_A_eq recentMessages_registered event_A_facts)
       (simp add: ie_def str_def)
  show "debounced Polite spaced_state"
    using 2 3 by (simp add: debounced_def ANNOUNCEMENT_DEBOUNCE_MS_def)
  show "timeout_id Polite spaced_state = None" "timers spaced_state = []"
    by (simp_all add: spaced_state_def timeout_id_def call_A_eq Ie_ids
        debounced_def last_timestamp_def ANNOUNCEMENT_DEBOUNCE_MS_def event_A_facts)
  show "nextTimer spaced_state = 2"
    by (simp add: spaced_state_def call_A_eq Ie_nextTimer)
  show "zwcCounter (announcer spaced_state) = 0"
    by (simp add: spaced_state_def Ie_resume_announcer event_A_facts call_A_eq Ie_announcer
        is_forced_def last_message_def)
qed

subsection \<open>The visual layer and the timers of the scheduler\<close>

lemma core_kept_refl: "core_kept s s"
  by (simp add: core_kept_def)

lemma core_kept_trans: "core_kept s s' \<Longrightarrow> core_kept s' s'' \<Longrightarrow> core_kept s s''"
  unfolding core_kept_def by (rule subseq_order.trans)

lemma core_kept_same: "timers s' = timers s \<Longrightarrow> core_kept s s'"
  by (simp add: core_kept_def)

lemma subseq_filter_filter: "subseq (filter (\<lambda>x. P x \<and> Q x) xs) (filter Q xs)"
  by (induction xs) auto

lemma core_kept_clearTimeout: "core_kept s (clearTimeout i s)"
  by (simp add: core_kept_def clearTimeout_def subseq_filter_filter)

lemma timers_me:
  "timers (me e s) = timers s \<or>
   (\<exists>d. timers (me e s) = timers s @ [(nextTimer s, d, TAutoDismiss (ev_id e))])"
  by (simp add: me_def Let_def setTimeout_def split: option.splits jsnumber.splits)

lemma core_kept_me: "core_kept s (me e s)"
  using timers_me [of e s] by (auto simp add: core_kept_def)

lemma core_kept_dismiss: "core_kept s (dismiss i s)"
  by (simp add: core_kept_def dismiss_def Let_def setTimeout_def clearTimeout_def
      subseq_filter_filter split: option.splits)

lemma core_kept_fold:
  assumes "\<And>x s. core_kept s (f x s)"
  shows "core_kept s (fold f xs s)"
proof (induction xs arbitrary: s)
  case Nil
  show ?case by (simp add: core_kept_refl)
next
  case (Cons x xs)
  show ?case using core_kept_trans [OF assms Cons.IH] by simp
qed

lemma core_kept_be: "core_kept s (be s)"
  unfolding be_def by (rule core_kept_fold) (rule core_kept_dismiss)

lemma core_kept_nt: "core_kept s (nt s)"
proof -
  let ?s1 = "be s"
  let ?s2 = "?s1\<lparr>container := False, styleElement := False\<rparr>"
  let ?s3 = "fold clearTimeout (map snd (dismissTimers ?s2)) ?s2"
  have a: "core_kept ?s1 ?s2" by (simp add: core_kept_def)
  have b: "core_kept ?s2 ?s3" by (rule core_kept_fold) (rule core_kept_clearTimeout)
  have c: "core_kept ?s3 (?s3\<lparr>dismissTimers := []\<rparr>)" by (simp add: core_kept_def)
  have "core_kept s (?s3\<lparr>dismissTimers := []\<rparr>)"
    using core_kept_trans [OF core_kept_trans [OF core_kept_trans [OF core_kept_be a] b] c] .
  then show ?thesis by (simp add: nt_def Let_def)
qed

lemma timers_de_ue_le [simp]:
  "timers (de s) = timers s" "timers (ue s) = timers s" "timers (le s) = timers s"
  by (simp_all add: de_def ue_def le_def)

lemma core_kept_config_listener: "core_kept s (config_listener s)"
  unfolding config_listener_def
  using core_kept_nt by (simp add: core_kept_same)

lemma core_kept_funpow:
  assumes "\<And>s. core_kept s (f s)"
  shows "core_kept s ((f ^^ n) s)"
proof (induction n)
  case 0
  show ?case by (simp add: core_kept_refl)
next
  case (Suc n)
  show ?case using core_kept_trans [OF Suc assms] by simp
qed

lemma core_kept_J: "core_kept s (J_notifyListeners s)"
  unfolding J_notifyListeners_def by (rule core_kept_funpow) (rule core_kept_config_listener)

lemma core_kept_fe: "fe e s = Some s' \<Longrightarrow> core_kept s s'"
proof -
  assume a: "fe e s = Some s'"
  let ?s1 = "le s"
  let ?s2 = "?s1\<lparr>visualItems := map_set (ev_id e)
             \<lparr>v_type = ev_type e, v_message = ev_message e, v_exiting = False\<rparr> (visualItems ?s1)\<rparr>"
  have 1: "core_kept s ?s1" by (simp add: core_kept_same)
  have 2: "core_kept ?s1 ?s2" by (simp add: core_kept_def)
  have 3: "core_kept ?s2 (me e ?s2)" by (rule core_kept_me)
  have "s' = s \<or> s' = ?s1 \<or> s' = me e ?s2"
    using a by (simp add: fe_def Let_def evict_loop_eq split: if_splits)
  then show ?thesis
    using core_kept_refl 1 core_kept_trans [OF core_kept_trans [OF 1 2] 3] by blast
qed

lemma core_kept_et: "et e s = Some s' \<Longrightarrow> core_kept s s'"
proof (cases "map_of (visualItems s) (ev_id e)")
  case None
  assume "et e s = Some s'"
  then show ?thesis using None core_kept_fe by (simp add: et_def)
next
  case (Some t)
  assume a: "et e s = Some s'"
  let ?s1 = "s\<lparr>visualItems := map_set (ev_id e) (t\<lparr>v_message := ev_message e, v_type := ev_type e\<rparr>) (visualItems s)\<rparr>"
  let ?s2 = "case map_of (dismissTimers ?s1) (ev_id e) of
               Some r \<Rightarrow> (clearTimeout r ?s1)\<lparr>dismissTimers := map_delete (ev_id e) (dismissTimers ?s1)\<rparr>
             | None \<Rightarrow> ?s1"
  have 1: "core_kept s ?s1" by (simp add: core_kept_def)
  have 2: "core_kept ?s1 ?s2"
    by (simp add: core_kept_def clearTimeout_def subseq_filter_filter split: option.splits)
  have 3: "core_kept ?s2 (me e ?s2)" by (rule core_kept_me)
  have "s' = me e ?s2" using a Some by (simp add: et_def Let_def)
  then show ?thesis using core_kept_trans [OF core_kept_trans [OF 1 2] 3] by simp
qed

lemma core_kept_show_visual:
  assumes "show_visual k s = Some (l, s1)"
  shows "core_kept s s1"
proof (cases "visual (config s)")
  case False
  then show ?thesis using assms by (simp add: show_visual_def core_kept_refl)
next
  case True
  then have "et (p_event k) (le s) = Some s1 \<or> fe (p_event k) (le s) = Some s1"
    using assms by (simp add: show_visual_def split: if_splits option.splits)
  then have "core_kept (le s) s1" using core_kept_et core_kept_fe by blast
  then show ?thesis by (simp add: core_kept_def)
qed

section \<open>The claims\<close>

text \<open>
  C2, as the code has it. For every event whose \<^verbatim>\<open>options.id\<close> is a string other than
  the empty one and is the id of an active event, the decision of \<^verbatim>\<open>Ve\<close> is the
  replacement of that event (never a skip), whatever the message and whatever
  \<^verbatim>\<open>options.force\<close>; the replaced event is unregistered. A forced event is never skipped.
\<close>

theorem id_replacement_precedence:
  assumes "opt_id (ev_options e) = Some i" and "i \<noteq> []" and "activeEvents s i = Some a"
  shows "Ve e s = (\<lparr>shouldSkip = False, replacedEvent = Some a, reason = IdReplacement\<rparr>, ae i s)
         \<and> (\<forall>e' s'. opt_force (ev_options e') = Some True \<longrightarrow> \<not> shouldSkip (fst (Ve e' s')))"
proof -
  have "\<And>e' s'. opt_force (ev_options e') = Some True \<Longrightarrow> \<not> shouldSkip (fst (Ve e' s'))"
    by (simp add: Ve_def content_check_def split: option.splits)
  then show ?thesis using assms by (simp add: Ve_def)
qed

text \<open>
  C2 at a concrete input: an event with the id \<^verbatim>\<open>"loader"\<close> is active, and a forced event
  with the same id and the same message is decided as its replacement.
\<close>

theorem id_replacement_precedence_witness:
  "Ve (kt (str ''Saved'') Success (no_options\<lparr>opt_id := Some (str ''loader''), opt_force := Some True\<rparr>)
         (str ''g2'') 1000)
      (Pe (kt (str ''Saved'') Success (no_options\<lparr>opt_id := Some (str ''loader'')\<rparr>) (str ''g1'') 1000)
         (init browser 1000))
   = (\<lparr>shouldSkip = False,
       replacedEvent =
         Some (kt (str ''Saved'') Success (no_options\<lparr>opt_id := Some (str ''loader'')\<rparr>) (str ''g1'') 1000),
       reason = IdReplacement\<rparr>,
      ae (str ''loader'')
        (Pe (kt (str ''Saved'') Success (no_options\<lparr>opt_id := Some (str ''loader'')\<rparr>) (str ''g1'') 1000)
           (init browser 1000)))"
proof -
  let ?a = "kt (str ''Saved'') Success (no_options\<lparr>opt_id := Some (str ''loader'')\<rparr>) (str ''g1'') 1000"
  let ?e = "kt (str ''Saved'') Success
              (no_options\<lparr>opt_id := Some (str ''loader''), opt_force := Some True\<rparr>) (str ''g2'') 1000"
  have 1: "opt_id (ev_options ?e) = Some (str ''loader'')"
    by (simp add: kt_def Let_def no_options_def)
  have 2: "str ''loader'' \<noteq> []"
    by (simp add: str_def)
  have 3: "activeEvents (Pe ?a (init browser 1000)) (str ''loader'') = Some ?a"
    by (simp add: Pe_def kt_def Let_def no_options_def)
  show ?thesis
    using id_replacement_precedence [OF 1 2 3] by simp
qed

text \<open>
  C2 as stated fails for the empty id. After \<^verbatim>\<open>notify("Saved", "success", {id: ""})\<close> the
  event is active under the id \<^verbatim>\<open>""\<close>; a second event with the same \<^verbatim>\<open>options.id\<close> is
  not decided as a replacement: it is skipped as a content duplicate.
\<close>

theorem empty_id_is_not_replaced:
  "opt_id (ev_options empty_id_event) = Some [] \<and>
   map_option ev_id (activeEvents empty_id_state []) = Some [] \<and>
   fst (Ve empty_id_event empty_id_state) =
     \<lparr>shouldSkip = True, replacedEvent = None, reason = ContentDedupe\<rparr>"
proof -
  have 1: "activeEvents empty_id_state =
             [[] \<mapsto> kt (str ''Saved'') Success empty_id_opts (str ''g1'') 1000]"
    by (simp add: empty_id_state_def empty_id_opts_def eval_defs Let_def)
  have 2: "recentMessages empty_id_state (ie (str ''Saved'') Success) = Some 1000"
    by (simp add: empty_id_state_def empty_id_opts_def eval_defs Let_def)
  have 3: "now empty_id_state = 1000"
    by (simp add: empty_id_state_def init_def)
  have 4: "ev_options empty_id_event = empty_id_opts"
    "ev_message empty_id_event = str ''Saved''" "ev_type empty_id_event = Success"
    by (simp_all add: empty_id_event_def kt_def Let_def)
  show ?thesis
    using 1 2 3 4
    by (simp add: Ve_def content_check_def Be_def empty_id_opts_def no_options_def kt_def
        DEDUPE_WINDOW_MS_def Let_def)
qed

text \<open>
  C6. For an event of type success, info or loading whose \<^verbatim>\<open>options.focus\<close> is a selector
  (a string other than the empty one), the focus mediator \<^verbatim>\<open>qe\<close> changes nothing and
  reports \<^verbatim>\<open>moved: false\<close> with the reason
  \<^verbatim>\<open>Focus movement blocked: <type> type cannot move focus\<close>; and a notify call with such
  a type and such options leaves the focused element as it was and makes no focus call.
\<close>

theorem focus_refused_for_low_priority:
  assumes "ty \<in> {Success, Info, Loading}" and "opt_focus opts = Some sel" and "sel \<noteq> []"
    and "ev_type e = ty" and "ev_options e = opts"
  shows "qe e s =
           (\<lparr>moved = False, target = Some sel, elementName = None,
             blockedReason = Some (str ''Focus movement blocked: '' @ type_name ty
                                   @ str '' type cannot move focus'')\<rparr>, s)
         \<and> activeElement (S_notify msg ty opts gen s) = activeElement s
         \<and> filter focus_obs (trace (S_notify msg ty opts gen s)) = filter focus_obs (trace s)"
proof -
  have a: "ev_type e \<in> {Success, Info, Loading}" "opt_focus (ev_options e) = Some sel"
    using assms by simp_all
  have b: "ev_type (kt msg ty opts gen (now s)) \<in> {Success, Info, Loading}"
    "opt_focus (ev_options (kt msg ty opts gen (now s))) = Some sel"
    using assms by (simp_all add: kt_def Let_def)
  show ?thesis
    using qe_blocked [OF a assms(3), of s] ht_focus_blocked [OF b assms(3), of s] assms(4)
    by (simp add: S_notify_def)
qed

text \<open>C6 at a concrete input: a success message that asks for focus on \<^verbatim>\<open>#email\<close>.\<close>

theorem focus_refused_witness:
  "qe (kt (str ''Saved'') Success focus_opts (str ''g1'') 1000) (init browser 1000) =
     (\<lparr>moved = False, target = Some (str ''#email''), elementName = None,
       blockedReason = Some (str ''Focus movement blocked: success type cannot move focus'')\<rparr>,
      init browser 1000)
   \<and> activeElement (S_notify (str ''Saved'') Success focus_opts (str ''g1'') (init browser 1000))
       = None"
proof -
  have 1: "Success \<in> {Success, Info, Loading}" by simp
  have 2: "opt_focus focus_opts = Some (str ''#email'')"
    by (simp add: focus_opts_def no_options_def)
  have 3: "str ''#email'' \<noteq> []" by (simp add: str_def)
  have 4: "ev_type (kt (str ''Saved'') Success focus_opts (str ''g1'') 1000) = Success"
    by (simp add: kt_def Let_def)
  have 5: "ev_options (kt (str ''Saved'') Success focus_opts (str ''g1'') 1000) = focus_opts"
    by (simp add: kt_def Let_def)
  have 6: "activeElement (init browser 1000) = None" by (simp add: init_def)
  show ?thesis
    using focus_refused_for_low_priority
      [OF 1 2 3 4 5, of "init browser 1000" "str ''Saved''" "str ''g1''"] 6
    by (simp add: str_def)
qed



text \<open>
  C9. An emission calls every listener of the event and then every wildcard listener,
  each once and in the order of registration, whether or not any of them throws; what
  a listener throws is caught and printed with \<^verbatim>\<open>console.error\<close> (in debug mode and
  outside it). With the visual layer off, the rest of \<^verbatim>\<open>ht\<close> after the announcement
  returns and its promise resolves with the event, whatever the listeners do.
\<close>

theorem emit_isolates_listener_errors:
  assumes "e \<noteq> EvAny"
  shows "trace (x_emit e t s) =
           trace s @ Emitted e t #
             concat (map (callback_obs e t) (set_members e s @ set_members EvAny s))
         \<and> delivered_to (trace (x_emit e t s)) =
             delivered_to (trace s) @ map l_id (set_members e s @ set_members EvAny s)
         \<and> (\<not> visual (config s) \<longrightarrow>
              ht_resume k s = Some (publish k False s) \<and>
              last (trace (publish k False s)) = Resolved (p_event k))"
  using assms
  by (simp add: trace_x_emit delivered_to_append delivered_to_callbacks ht_resume_off
      last_publish_off del: map_append)

text \<open>
  C9 at a concrete input: a listener of \<^verbatim>\<open>announced\<close> that throws, registered before a
  wildcard listener that does not. Both are called; the error of the first is printed.
\<close>

theorem emit_isolates_listener_errors_witness:
  "trace (x_emit EvAnnounced (DedupedP empty_id_event)
            (gt quiet (pe EvAnnounced thrower (init browser 1000))))
   = [Emitted EvAnnounced (DedupedP empty_id_event),
      Delivered 1 EvAnnounced (DedupedP empty_id_event), ConsoleError 1 EvAnnounced,
      Delivered 2 EvAnnounced (DedupedP empty_id_event)]"
proof -
  let ?s = "gt quiet (pe EvAnnounced thrower (init browser 1000))"
  have 1: "EvAnnounced \<noteq> EvAny" by simp
  have 2: "set_members EvAnnounced ?s = [thrower]" "set_members EvAny ?s = [quiet]"
    by (simp_all add: set_members_def gt_def pe_def init_def Let_def)
  have 3: "trace ?s = []"
    by (simp add: init_def)
  show ?thesis
    using emit_isolates_listener_errors [OF 1, of "DedupedP empty_id_event" ?s] 2 3
    by (simp add: callback_obs_def thrower_def quiet_def)
qed

text \<open>
  C7, as the code has it. When a request reaches \<^verbatim>\<open>Ie\<close> and the last announcement of its
  channel is less than \<^verbatim>\<open>ANNOUNCEMENT_DEBOUNCE_MS\<close> old, the timer that \<^verbatim>\<open>Re\<close> holds for
  the channel is cleared and one timer is set whose delay is the constant
  \<^verbatim>\<open>ANNOUNCEMENT_DEBOUNCE_MS\<close>, not what remains of the spacing; when it fires it calls
  \<^verbatim>\<open>X\<close>. Otherwise \<^verbatim>\<open>X\<close> is called at once. \<^verbatim>\<open>X\<close> sets a timer of
  \<^verbatim>\<open>REGION_CLEAR_DELAY_MS\<close>, and when that fires the text is written to the region.
\<close>

theorem debounce_delay_is_fixed:
  assumes "n = ev_ariaLive (p_announced k)" and "l = dom_text (p_announced k) s"
  shows "(now s - last_timestamp n s < ANNOUNCEMENT_DEBOUNCE_MS \<longrightarrow>
            timers (Ie k s) =
              filter (\<lambda>t. Some (fst t) \<noteq> timeout_id n s) (timers s) @
                [(nextTimer s, now s + ANNOUNCEMENT_DEBOUNCE_MS, TDebounce n l k)])
         \<and> (\<not> now s - last_timestamp n s < ANNOUNCEMENT_DEBOUNCE_MS \<longrightarrow>
            timers (Ie k s) =
              timers s @ [(nextTimer s, now s + REGION_CLEAR_DELAY_MS, TClearDelay n l k)])
         \<and> (\<forall>s'. \<exists>s''. run_timer (TDebounce n l k) s' = Some s'' \<and>
               timers s'' =
                 timers s' @ [(nextTimer s', now s' + REGION_CLEAR_DELAY_MS, TClearDelay n l k)])
         \<and> (\<forall>s'. \<not> visual (config s') \<and> regions_ready s' \<longrightarrow>
               (\<exists>s''. run_timer (TClearDelay n l k) s' = Some s'' \<and>
                  timers s'' = timers s' \<and>
                  filter (\<lambda>x. x = DomWrite n l) (trace s'') =
                    filter (\<lambda>x. x = DomWrite n l) (trace s') @ [DomWrite n l]))"
proof -
  have a: "\<And>s'. \<not> visual (config s') \<Longrightarrow> regions_ready s' \<Longrightarrow>
        filter (\<lambda>x. x = DomWrite n l) (trace (publish k False (Ie_resume k (De n l s')))) =
        filter (\<lambda>x. x = DomWrite n l) (trace s') @ [DomWrite n l]"
    by (simp add: publish_def emit_visualShown_def emit_focusMoved_def emit_announced_def
        filter_trace_x_emit De_trace split: option.splits)
  show ?thesis
    using assms a
    by (simp add: Ie_timers debounced_def run_debounce run_clear_delay_off)
qed

text \<open>
  C7 at a concrete input: a request for the polite channel at 1080, 30 ms after the
  last announcement of that channel, sets a debounce timer due at 1180.
\<close>

theorem debounce_delay_is_fixed_witness:
  "timers (Ie (pending_of (kt (str ''B'') Info no_options (str ''g2'') 1080) spaced_state)
             spaced_state)
   = [(2, 1180,
       TDebounce Polite (str ''B'')
         (pending_of (kt (str ''B'') Info no_options (str ''g2'') 1080) spaced_state))]"
proof -
  let ?e = "kt (str ''B'') Info no_options (str ''g2'') 1080"
  let ?k = "pending_of ?e spaced_state"
  have m: "ev_message (p_announced ?k) = str ''B''"
    using announced_message_plain [of ?e spaced_state] by (simp add: no_options_def)
  have 1: "Polite = ev_ariaLive (p_announced ?k)"
    by simp
  have 2: "str ''B'' = dom_text (p_announced ?k) spaced_state"
    unfolding dom_text_def is_forced_def m
    by (simp add: spaced_state_facts no_options_def str_def)
  have 3: "now spaced_state - last_timestamp Polite spaced_state < ANNOUNCEMENT_DEBOUNCE_MS"
    using spaced_state_facts(6) by (simp add: debounced_def)
  show ?thesis
    using debounce_delay_is_fixed [OF 1 2] 3
    by (simp add: spaced_state_facts ANNOUNCEMENT_DEBOUNCE_MS_def)
qed

text \<open>
  C7 as stated fails. In the run \<^verbatim>\<open>notify.success("A")\<close> at 1000 (written at 1050),
  \<^verbatim>\<open>notify.info("B")\<close> at 1080, the second request comes 30 ms after the last
  announcement of its channel; the remaining spacing is 70 ms, which would make the
  timer due at 1150, and the timer that is set is due at 1180.
\<close>

theorem delay_is_not_the_remaining_spacing:
  "exec [Notify (str ''A'') Success no_options (str ''g1''), Fire, Advance 1080]
     (init browser 1000) = Some spaced_state
   \<and> now spaced_state - last_timestamp Polite spaced_state = 30
   \<and> map (fst \<circ> snd)
        (timers (S_notify (str ''B'') Info no_options (str ''g2'') spaced_state)) = [1180]
   \<and> now spaced_state + (ANNOUNCEMENT_DEBOUNCE_MS - 30) = 1150"
proof -
  let ?eB = "kt (str ''B'') Info no_options (str ''g2'') 1080"
  have v: "\<not> shouldSkip (fst (Ve ?eB spaced_state))"
    using spaced_state_facts(5) by (simp add: Ve_def content_check_def Be_def no_options_def)
  have 4: "map (fst \<circ> snd)
        (timers (S_notify (str ''B'') Info no_options (str ''g2'') spaced_state)) = [1180]"
    using v spaced_state_facts
    by (simp add: S_notify_def ht_eq Ie_timers ANNOUNCEMENT_DEBOUNCE_MS_def)
  show ?thesis
    using 4 spaced_state_facts by (simp add: ANNOUNCEMENT_DEBOUNCE_MS_def)
qed


end
